theory Spec2Isabelle
  imports Complex_Main "HOL-Library.Sublist"
begin

section \<open>A shallow embedding of BlackHole.cpp\<close>

text \<open>
  The C++ type \<open>float\<close> is modelled by \<^typ>\<open>real\<close>: arithmetic is exact, there is
  no rounding, no overflow and no NaN. The one place where exact arithmetic and the
  program part ways without any rounding is a division whose divisor is zero (the program
  then carries an infinity or a NaN on); the model makes every division that the source
  does not guard itself return an explicit error value there, so that such a run is a
  visible branch of the model and not a silent number.

  A float literal that is an operand of arithmetic keeps its decimal value, the
  difference being one of rounding; the literal \<open>0.3f\<close> is what the spawn timer is
  compared with, so it is the binary32 value itself (\<open>spawn_interval\<close>), and the
  property of the spawn timer is proved for every way of rounding the sum that the
  timer accumulates (\<open>update_sim_with\<close>).

  The counter \<open>rayCount\<close> (a C++ \<open>int\<close> that starts at 0 and is only incremented or
  set to 0) is a \<^typ>\<open>nat\<close>, and the model follows the program as long as the
  counter is below \<open>INT_MAX\<close>: incrementing an \<open>int\<close> that holds \<open>INT_MAX\<close> is
  undefined in C++, and no property below speaks about that increment. The window, the
  clock, the font and the text overlay of the simulation are presentation only; of the
  window the model keeps whether it is open.
\<close>

subsection \<open>Constants\<close>

definition WINDOW_WIDTH :: int where
  "WINDOW_WIDTH = 1200"

definition WINDOW_HEIGHT :: int where
  "WINDOW_HEIGHT = 800"

text \<open>The largest value of the 32-bit \<open>int\<close> that \<open>rayCount\<close> is.\<close>

definition INT_MAX :: nat where
  "INT_MAX = 2147483647"

text \<open>
  The literal \<open>0.3f\<close> of \<open>BlackHoleSimulation::update\<close>: the binary32 number nearest
  to 0.3, which is 5033165 / 2^24, a little more than 3/10.
\<close>

definition spawn_interval :: real where
  "spawn_interval = 5033165 / 16777216"

subsection \<open>Vector2f\<close>

datatype Vector2f = Vector2f (vx: real) (vy: real)

definition vadd :: "Vector2f \<Rightarrow> Vector2f \<Rightarrow> Vector2f" where
  "vadd a b = Vector2f (vx a + vx b) (vy a + vy b)"

definition vsub :: "Vector2f \<Rightarrow> Vector2f \<Rightarrow> Vector2f" where
  "vsub a b = Vector2f (vx a - vx b) (vy a - vy b)"

definition vscale :: "Vector2f \<Rightarrow> real \<Rightarrow> Vector2f" where
  "vscale a scalar = Vector2f (vx a * scalar) (vy a * scalar)"

definition magnitude :: "Vector2f \<Rightarrow> real" where
  "magnitude a = sqrt (vx a * vx a + vy a * vy a)"

text \<open>The division of \<open>normalized\<close> is guarded by the source itself (\<open>mag > 0\<close>).\<close>

definition normalized :: "Vector2f \<Rightarrow> Vector2f" where
  "normalized a =
     (let mag = magnitude a
      in if mag > 0 then Vector2f (vx a / mag) (vy a / mag) else Vector2f 0 0)"

subsection \<open>Division outside a guard\<close>

datatype fp_error = DivisionByZero

definition fdiv :: "real \<Rightarrow> real \<Rightarrow> fp_error + real" where
  "fdiv a b = (if b = 0 then Inl DivisionByZero else Inr (a / b))"

subsection \<open>BlackHole\<close>

record BlackHole =
  position :: Vector2f
  mass :: real
  schwarzschildRadius :: real

definition BlackHole_ctor :: "Vector2f \<Rightarrow> real \<Rightarrow> BlackHole" where
  "BlackHole_ctor pos m =
     \<lparr>position = pos, mass = m, schwarzschildRadius = m * 0.01\<rparr>"

definition getPosition :: "BlackHole \<Rightarrow> Vector2f" where
  "getPosition b = position b"

definition getMass :: "BlackHole \<Rightarrow> real" where
  "getMass b = mass b"

definition getSchwarzschildRadius :: "BlackHole \<Rightarrow> real" where
  "getSchwarzschildRadius b = schwarzschildRadius b"

subsection \<open>LightRay\<close>

datatype Color = Red | Green | Blue | Yellow | Magenta | Cyan | White

record LightRay =
  path :: "Vector2f list"
  currentPosition :: Vector2f
  currentVelocity :: Vector2f
  color :: Color
  impactParameter :: real
  absorbed :: bool

definition LightRay_ctor :: "Vector2f \<Rightarrow> Vector2f \<Rightarrow> Color \<Rightarrow> LightRay" where
  "LightRay_ctor startPos initialVel c =
     \<lparr>path = [startPos],
      currentPosition = startPos,
      currentVelocity = initialVel,
      color = c,
      impactParameter = \<bar>vy startPos - real_of_int WINDOW_HEIGHT / 2\<bar>,
      absorbed = False\<rparr>"

text \<open>
  \<open>LightRay::update\<close>. The two divisions the source writes without a guard of their
  own go through \<^const>\<open>fdiv\<close>; everything else follows the statements in order.
\<close>

definition update :: "BlackHole \<Rightarrow> real \<Rightarrow> LightRay \<Rightarrow> fp_error + LightRay" where
  "update blackHole deltaTime r =
     (if absorbed r then Inr r
      else
        let blackHolePos = getPosition blackHole;
            toBlackHole = vsub blackHolePos (currentPosition r);
            distance = magnitude toBlackHole
        in
          if distance < getSchwarzschildRadius blackHole then Inr (r\<lparr>absorbed := True\<rparr>)
          else
            let gravitationalConstant = getMass blackHole * 10000
            in
              case fdiv gravitationalConstant (distance * distance) of
                Inl e \<Rightarrow> Inl e
              | Inr g \<Rightarrow>
                  (case fdiv (gravitationalConstant * 0.001)
                             (distance * impactParameter r + 1) of
                     Inl e \<Rightarrow> Inl e
                   | Inr q \<Rightarrow>
                      let acceleration = vscale (normalized toBlackHole) g;
                          deflectionFactor = 1 + q;
                          acceleration = vscale acceleration deflectionFactor;
                          velocity = vadd (currentVelocity r) (vscale acceleration deltaTime);
                          lightSpeed = 200;
                          velocity = vscale (normalized velocity) lightSpeed;
                          pos = vadd (currentPosition r) (vscale velocity deltaTime)
                      in
                        Inr (r\<lparr>currentVelocity := velocity,
                               currentPosition := pos,
                               path :=
                                 (if length (path r) = 0
                                     \<or> magnitude (vsub pos (last (path r))) > 2
                                  then path r @ [pos] else path r)\<rparr>)))"

definition isOffScreen :: "LightRay \<Rightarrow> bool" where
  "isOffScreen r \<longleftrightarrow>
     (vx (currentPosition r) > real_of_int (WINDOW_WIDTH + 100)
      \<or> vx (currentPosition r) < - 100
      \<or> vy (currentPosition r) > real_of_int (WINDOW_HEIGHT + 100)
      \<or> vy (currentPosition r) < - 100)
     \<and> \<not> absorbed r"

definition isAbsorbed :: "LightRay \<Rightarrow> bool" where
  "isAbsorbed r = absorbed r"

text \<open>A run of \<open>update\<close> calls, each with its own gravity source and time step.\<close>

fun updates :: "(BlackHole \<times> real) list \<Rightarrow> LightRay \<Rightarrow> fp_error + LightRay" where
  "updates [] r = Inr r"
| "updates ((b, dt) # calls) r =
     (case update b dt r of Inl e \<Rightarrow> Inl e | Inr r' \<Rightarrow> updates calls r')"

subsection \<open>BlackHoleSimulation\<close>

record BlackHoleSimulation =
  windowOpen :: bool
  blackHole :: BlackHole
  lightRays :: "LightRay list"
  raySpawnTimer :: real
  rayCount :: nat

definition BlackHoleSimulation_ctor :: BlackHoleSimulation where
  "BlackHoleSimulation_ctor =
     \<lparr>windowOpen = True,
      blackHole = BlackHole_ctor
        (Vector2f (real_of_int (WINDOW_WIDTH div 2)) (real_of_int (WINDOW_HEIGHT div 2))) 50,
      lightRays = [],
      raySpawnTimer = 0,
      rayCount = 0\<rparr>"

definition colors :: "Color list" where
  "colors = [Red, Green, Blue, Yellow, Magenta, Cyan, White]"

text \<open>
  \<open>spawnLightRay\<close>. On a counter below \<open>INT_MAX\<close> the increment is that of the
  source; \<open>%\<close> is taken of a counter that is never negative.
\<close>

definition spawnLightRay :: "BlackHoleSimulation \<Rightarrow> BlackHoleSimulation" where
  "spawnLightRay s =
     (let y = real (50 + (rayCount s mod 15) * 50);
          startPos = Vector2f (- 50) y;
          velocity = Vector2f 200 0;
          rayColor = colors ! (rayCount s mod 7)
      in s\<lparr>lightRays := lightRays s @ [LightRay_ctor startPos velocity rayColor],
             rayCount := rayCount s + 1\<rparr>)"

text \<open>
  The loop \<open>for (auto& ray : lightRays) ray.update(blackHole, deltaTime)\<close>. A
  division by zero in the update of one ray ends the run of the model.
\<close>

fun update_rays :: "BlackHole \<Rightarrow> real \<Rightarrow> LightRay list \<Rightarrow> fp_error + LightRay list" where
  "update_rays b dt [] = Inr []"
| "update_rays b dt (r # rs) =
     (case update b dt r of
        Inl e \<Rightarrow> Inl e
      | Inr r' \<Rightarrow> (case update_rays b dt rs of Inl e \<Rightarrow> Inl e | Inr rs' \<Rightarrow> Inr (r' # rs')))"

text \<open>The first statements of \<open>BlackHoleSimulation::update\<close>: the spawn timer.\<close>

definition spawn_phase :: "real \<Rightarrow> BlackHoleSimulation \<Rightarrow> BlackHoleSimulation" where
  "spawn_phase deltaTime s =
     (let s1 = s\<lparr>raySpawnTimer := raySpawnTimer s + deltaTime\<rparr>
      in if raySpawnTimer s1 > spawn_interval then (spawnLightRay s1)\<lparr>raySpawnTimer := 0\<rparr>
         else s1)"

text \<open>
  \<open>BlackHoleSimulation::update\<close>, named \<open>update_sim\<close> here since \<open>update\<close> is
  taken by \<open>LightRay::update\<close>; \<open>deltaTime\<close> is what \<open>clock.restart()\<close>
  returned. The rays are updated, then those off screen are erased.
\<close>

definition update_sim :: "real \<Rightarrow> BlackHoleSimulation \<Rightarrow> fp_error + BlackHoleSimulation" where
  "update_sim deltaTime s =
     (let s2 = spawn_phase deltaTime s
      in case update_rays (blackHole s2) deltaTime (lightRays s2) of
           Inl e \<Rightarrow> Inl e
         | Inr rs \<Rightarrow> Inr (s2\<lparr>lightRays := filter (\<lambda>ray. \<not> isOffScreen ray) rs\<rparr>))"

text \<open>
  The same two definitions with the float addition of \<open>raySpawnTimer += deltaTime\<close>
  left open: \<open>fadd t d\<close> is the number that the addition stores in the timer, however
  it is rounded. With the exact sum they are \<open>spawn_phase\<close> and \<open>update_sim\<close>.
\<close>

definition spawn_phase_with ::
  "(real \<Rightarrow> real \<Rightarrow> real) \<Rightarrow> real \<Rightarrow> BlackHoleSimulation \<Rightarrow> BlackHoleSimulation" where
  "spawn_phase_with fadd deltaTime s =
     (let s1 = s\<lparr>raySpawnTimer := fadd (raySpawnTimer s) deltaTime\<rparr>
      in if raySpawnTimer s1 > spawn_interval then (spawnLightRay s1)\<lparr>raySpawnTimer := 0\<rparr>
         else s1)"

definition update_sim_with ::
  "(real \<Rightarrow> real \<Rightarrow> real) \<Rightarrow> real \<Rightarrow> BlackHoleSimulation
   \<Rightarrow> fp_error + BlackHoleSimulation" where
  "update_sim_with fadd deltaTime s =
     (let s2 = spawn_phase_with fadd deltaTime s
      in case update_rays (blackHole s2) deltaTime (lightRays s2) of
           Inl e \<Rightarrow> Inl e
         | Inr rs \<Rightarrow> Inr (s2\<lparr>lightRays := filter (\<lambda>ray. \<not> isOffScreen ray) rs\<rparr>))"

datatype Key = Escape | KeyR | OtherKey

datatype Event = Closed | KeyPressed Key | OtherEvent

fun handleEvent :: "Event \<Rightarrow> BlackHoleSimulation \<Rightarrow> BlackHoleSimulation" where
  "handleEvent Closed s = s\<lparr>windowOpen := False\<rparr>"
| "handleEvent (KeyPressed Escape) s = s\<lparr>windowOpen := False\<rparr>"
| "handleEvent (KeyPressed KeyR) s = s\<lparr>lightRays := [], rayCount := 0\<rparr>"
| "handleEvent _ s = s"

text \<open>\<open>handleEvents\<close> drains the event queue that \<open>pollEvent\<close> hands out.\<close>

fun handleEvents :: "Event list \<Rightarrow> BlackHoleSimulation \<Rightarrow> BlackHoleSimulation" where
  "handleEvents [] s = s"
| "handleEvents (e # es) s = handleEvents es (handleEvent e s)"

subsection \<open>Notions the properties are stated with\<close>

text \<open>The distance that \<open>LightRay::update\<close> compares with the capture radius.\<close>

definition distance_to :: "BlackHole \<Rightarrow> LightRay \<Rightarrow> real" where
  "distance_to b r = magnitude (vsub (getPosition b) (currentPosition r))"

text \<open>
  The value of \<open>currentVelocity\<close> after the statement
  \<open>currentVelocity = currentVelocity + acceleration * deltaTime\<close> and before it is
  normalised, on a run of \<open>update\<close> that reaches that statement (both divisors are
  non-zero there, see \<open>update_velocity\<close> below).
\<close>

definition integrated_velocity :: "BlackHole \<Rightarrow> real \<Rightarrow> LightRay \<Rightarrow> Vector2f" where
  "integrated_velocity b deltaTime r =
     (let toBlackHole = vsub (getPosition b) (currentPosition r);
          distance = magnitude toBlackHole;
          gravitationalConstant = getMass b * 10000;
          acceleration =
            vscale (normalized toBlackHole) (gravitationalConstant / (distance * distance));
          deflectionFactor =
            1 + (gravitationalConstant * 0.001) / (distance * impactParameter r + 1);
          acceleration = vscale acceleration deflectionFactor
      in vadd (currentVelocity r) (vscale acceleration deltaTime))"

text \<open>
  The frame of \<open>WINDOW_WIDTH\<close> by \<open>WINDOW_HEIGHT\<close> pixels, grown by a margin of 100 on
  each of its four sides, as the specification words it; its border belongs to it.
\<close>

definition inside_expanded_frame :: "Vector2f \<Rightarrow> bool" where
  "inside_expanded_frame p \<longleftrightarrow>
     0 - 100 \<le> vx p \<and> vx p \<le> real_of_int WINDOW_WIDTH + 100
     \<and> 0 - 100 \<le> vy p \<and> vy p \<le> real_of_int WINDOW_HEIGHT + 100"

text \<open>Any two neighbours of a recorded path are more than 2 apart.\<close>

fun path_spaced :: "Vector2f list \<Rightarrow> bool" where
  "path_spaced (p # q # ps) \<longleftrightarrow> magnitude (vsub q p) > 2 \<and> path_spaced (q # ps)"
| "path_spaced _ \<longleftrightarrow> True"

text \<open>The ray that \<open>spawnLightRay\<close> constructs when the counter \<open>rayCount\<close> is \<open>n\<close>.\<close>

definition spawned_ray :: "nat \<Rightarrow> LightRay" where
  "spawned_ray n =
     LightRay_ctor (Vector2f (- 50) (real (50 + (n mod 15) * 50))) (Vector2f 200 0)
       (colors ! (n mod 7))"

text \<open>\<open>n\<close> calls of \<open>spawnLightRay\<close> in a row.\<close>

fun spawn_times :: "nat \<Rightarrow> BlackHoleSimulation \<Rightarrow> BlackHoleSimulation" where
  "spawn_times 0 s = s"
| "spawn_times (Suc n) s = spawn_times n (spawnLightRay s)"

text \<open>
  An invariant of the simulation, true of the constructed simulation and kept by
  \<open>handleEvents\<close> and by \<open>update_sim\<close>: the capture radius of the gravity source is
  positive, and the impact parameter of each ray, an absolute value, is not negative.
\<close>

definition sim_invariant :: "BlackHoleSimulation \<Rightarrow> bool" where
  "sim_invariant s \<longleftrightarrow>
     0 < getSchwarzschildRadius (blackHole s)
     \<and> list_all (\<lambda>r. 0 \<le> impactParameter r) (lightRays s)"

text \<open>
  The infall scenario: the gravity source of the simulation, the ray started on its height
  at the left of the frame (the eighth ray that the simulation spawns), and that ray after
  \<open>k\<close> calls of \<open>update\<close> with time step 1/60.
\<close>

definition infall_blackHole :: BlackHole where
  "infall_blackHole = BlackHole_ctor (Vector2f 600 400) 50"

definition infall_ray :: LightRay where
  "infall_ray = LightRay_ctor (Vector2f (- 50) 400) (Vector2f 200 0) Red"

definition infall :: "nat \<Rightarrow> fp_error + LightRay" where
  "infall k = updates (replicate k (infall_blackHole, 1 / 60)) infall_ray"

section \<open>Properties\<close>

subsection \<open>Vectors\<close>

lemma magnitude_nonneg: "0 \<le> magnitude a"
  by (simp add: magnitude_def)

lemma magnitude_x_axis: "magnitude (Vector2f a 0) = \<bar>a\<bar>"
  by (simp add: magnitude_def)

lemma magnitude_eq_0_iff: "magnitude a = 0 \<longleftrightarrow> a = Vector2f 0 0"
proof -
  have "vx a * vx a + vy a * vy a = 0 \<longleftrightarrow> vx a = 0 \<and> vy a = 0"
    by (simp add: sum_squares_eq_zero_iff)
  then show ?thesis
    by (cases a) (simp add: magnitude_def)
qed

lemma normalized_zero: "magnitude a = 0 \<Longrightarrow> normalized a = Vector2f 0 0"
  by (simp add: normalized_def Let_def)

lemma magnitude_normalized:
  assumes "a \<noteq> Vector2f 0 0"
  shows "magnitude (normalized a) = 1"
proof -
  let ?m = "magnitude a"
  have pos: "0 < ?m"
    using assms magnitude_eq_0_iff [of a] magnitude_nonneg [of a] by linarith
  have sq: "?m * ?m = vx a * vx a + vy a * vy a"
    by (simp add: magnitude_def)
  have "(vx a / ?m) * (vx a / ?m) + (vy a / ?m) * (vy a / ?m)
        = (vx a * vx a + vy a * vy a) / (?m * ?m)"
    by (simp add: add_divide_distrib)
  also have "\<dots> = 1"
    using pos by (simp only: sq [symmetric]) simp
  finally have "magnitude (Vector2f (vx a / ?m) (vy a / ?m)) = 1"
    by (simp add: magnitude_def)
  with pos show ?thesis
    by (simp add: normalized_def Let_def)
qed

lemma magnitude_vscale: "magnitude (vscale a k) = magnitude a * \<bar>k\<bar>"
proof -
  have "vx a * k * (vx a * k) + vy a * k * (vy a * k)
        = (vx a * vx a + vy a * vy a) * (k * k)"
    by (simp add: algebra_simps)
  then show ?thesis
    by (simp add: magnitude_def vscale_def real_sqrt_mult)
qed

subsection \<open>update\<close>

lemma update_when_absorbed: "absorbed r \<Longrightarrow> update b dt r = Inr r"
  by (simp add: update_def)

lemma updates_when_absorbed: "absorbed r \<Longrightarrow> updates calls r = Inr r"
  by (induction calls) (auto simp: update_when_absorbed)

lemma update_capture:
  "\<not> absorbed r \<Longrightarrow> distance_to b r < getSchwarzschildRadius b \<Longrightarrow>
   update b dt r = Inr (r\<lparr>absorbed := True\<rparr>)"
  by (simp add: update_def distance_to_def Let_def)

lemma update_no_capture:
  "\<not> absorbed r \<Longrightarrow> \<not> distance_to b r < getSchwarzschildRadius b \<Longrightarrow>
   update b dt r = Inr r' \<Longrightarrow> \<not> absorbed r'"
  by (auto simp: update_def distance_to_def Let_def split: sum.splits)

lemma update_impactParameter: "update b dt r = Inr r' \<Longrightarrow> impactParameter r' = impactParameter r"
  by (auto simp: update_def Let_def split: if_splits sum.splits)

lemma update_color: "update b dt r = Inr r' \<Longrightarrow> color r' = color r"
  by (auto simp: update_def Let_def split: if_splits sum.splits)

lemma updates_impactParameter:
  "updates calls r = Inr r' \<Longrightarrow> impactParameter r' = impactParameter r"
proof (induction calls arbitrary: r)
  case Nil
  then show ?case by simp
next
  case (Cons c calls)
  obtain b dt where c: "c = (b, dt)" by (cases c)
  from Cons.prems c obtain r1 where 1: "update b dt r = Inr r1" and 2: "updates calls r1 = Inr r'"
    by (auto split: sum.splits)
  from Cons.IH [OF 2] update_impactParameter [OF 1] show ?case by simp
qed

lemma updates_append:
  "updates (xs @ ys) r = (case updates xs r of Inl e \<Rightarrow> Inl e | Inr r' \<Rightarrow> updates ys r')"
  by (induction xs arbitrary: r) (auto split: sum.splits)

subsection \<open>C1: an absorbed ray is frozen\<close>

text \<open>
  Claim C1. Once \<open>absorbed\<close> is true, a call of \<open>update\<close>, for any gravity source and
  any time step, returns the ray as it is (position, velocity, path and the flag
  included), and so does any run of calls. A ray that is not absorbed becomes absorbed by
  a call exactly when its distance to the gravity source is below the capture radius, and
  that call changes nothing but the flag.
\<close>

theorem absorbed_ray_is_frozen:
  "(absorbed r \<longrightarrow> update b dt r = Inr r \<and> updates calls r = Inr r)
   \<and> (\<not> absorbed r \<longrightarrow>
        (if distance_to b r < getSchwarzschildRadius b
         then update b dt r = Inr (r\<lparr>absorbed := True\<rparr>)
         else \<forall>r'. update b dt r = Inr r' \<longrightarrow> \<not> absorbed r'))"
  using update_when_absorbed updates_when_absorbed update_capture update_no_capture
  by (cases "absorbed r") auto

text \<open>
  A ray placed on the gravity source of the simulation is captured by its first update
  and not changed by the two that follow, the second of them against another source.
\<close>

theorem absorbed_ray_is_frozen_witness:
  "\<not> absorbed (LightRay_ctor (Vector2f 600 400) (Vector2f 200 0) Red)
   \<and> update (BlackHole_ctor (Vector2f 600 400) 50) (1/60)
        (LightRay_ctor (Vector2f 600 400) (Vector2f 200 0) Red)
      = Inr ((LightRay_ctor (Vector2f 600 400) (Vector2f 200 0) Red)\<lparr>absorbed := True\<rparr>)
   \<and> absorbed ((LightRay_ctor (Vector2f 600 400) (Vector2f 200 0) Red)\<lparr>absorbed := True\<rparr>)
   \<and> updates [(BlackHole_ctor (Vector2f 600 400) 50, 1/60), (BlackHole_ctor (Vector2f 0 0) 1, 5)]
        ((LightRay_ctor (Vector2f 600 400) (Vector2f 200 0) Red)\<lparr>absorbed := True\<rparr>)
      = Inr ((LightRay_ctor (Vector2f 600 400) (Vector2f 200 0) Red)\<lparr>absorbed := True\<rparr>)"
proof -
  let ?b = "BlackHole_ctor (Vector2f 600 400) 50"
  let ?r = "LightRay_ctor (Vector2f 600 400) (Vector2f 200 0) Red"
  let ?calls = "[(?b, 1/60), (BlackHole_ctor (Vector2f 0 0) 1, 5)]"
  have n: "\<not> absorbed ?r"
    by (simp add: LightRay_ctor_def)
  have d: "distance_to ?b ?r < getSchwarzschildRadius ?b"
    by (simp add: LightRay_ctor_def BlackHole_ctor_def getPosition_def distance_to_def
        getSchwarzschildRadius_def vsub_def magnitude_x_axis)
  have a: "absorbed (?r\<lparr>absorbed := True\<rparr>)"
    by simp
  from absorbed_ray_is_frozen [of ?r ?b "1/60" "[]"] n d
  have 1: "update ?b (1/60) ?r = Inr (?r\<lparr>absorbed := True\<rparr>)"
    by presburger
  from absorbed_ray_is_frozen [of "?r\<lparr>absorbed := True\<rparr>" ?b "1/60" ?calls] a
  have 2: "updates ?calls (?r\<lparr>absorbed := True\<rparr>) = Inr (?r\<lparr>absorbed := True\<rparr>)"
    by blast
  from n 1 a 2 show ?thesis by blast
qed

subsection \<open>The impact parameter\<close>

lemma LightRay_ctor_impactParameter:
  "impactParameter (LightRay_ctor p v c) = \<bar>vy p - 400\<bar>"
  by (simp add: LightRay_ctor_def WINDOW_HEIGHT_def)

lemma sim_blackHole_position:
  "getPosition (blackHole BlackHoleSimulation_ctor) = Vector2f 600 400"
  by (simp add: BlackHoleSimulation_ctor_def BlackHole_ctor_def getPosition_def
      WINDOW_WIDTH_def WINDOW_HEIGHT_def)

text \<open>
  The constructor takes half the window height for the height of the gravity source, and
  no run of \<open>update\<close> calls changes the value it computes.
\<close>

lemma impactParameter_frozen:
  "impactParameter (LightRay_ctor p v c) = \<bar>vy p - real_of_int WINDOW_HEIGHT / 2\<bar>
   \<and> (updates calls (LightRay_ctor p v c) = Inr r \<longrightarrow>
        impactParameter r = \<bar>vy p - real_of_int WINDOW_HEIGHT / 2\<bar>)"
  using updates_impactParameter [of calls "LightRay_ctor p v c" r]
  by (simp add: LightRay_ctor_impactParameter WINDOW_HEIGHT_def)

text \<open>
  Against the gravity source that the simulation constructs, at height 400, the value is
  the distance in height between the start of the ray and the source, for every ray that
  \<open>spawnLightRay\<close> constructs.
\<close>

lemma spawned_ray_impact_in_simulation:
  "impactParameter (spawned_ray n)
   = \<bar>vy (currentPosition (spawned_ray n))
       - vy (getPosition (blackHole BlackHoleSimulation_ctor))\<bar>"
  by (simp add: spawned_ray_def LightRay_ctor_def sim_blackHole_position WINDOW_HEIGHT_def)

subsection \<open>Spawning\<close>

lemma spawnLightRay_rays: "lightRays (spawnLightRay s) = lightRays s @ [spawned_ray (rayCount s)]"
  by (simp add: spawnLightRay_def spawned_ray_def Let_def)

lemma spawnLightRay_rayCount: "rayCount (spawnLightRay s) = rayCount s + 1"
  by (simp add: spawnLightRay_def Let_def)

lemma spawnLightRay_others:
  "blackHole (spawnLightRay s) = blackHole s"
  "raySpawnTimer (spawnLightRay s) = raySpawnTimer s"
  "windowOpen (spawnLightRay s) = windowOpen s"
  by (simp_all add: spawnLightRay_def Let_def)

lemma spawn_times_rayCount: "rayCount (spawn_times n s) = rayCount s + n"
  by (induction n arbitrary: s) (simp_all add: spawnLightRay_rayCount)

lemma spawn_times_rays:
  "lightRays (spawn_times n s) = lightRays s @ map spawned_ray [rayCount s ..< rayCount s + n]"
proof (induction n arbitrary: s)
  case 0
  then show ?case by simp
next
  case (Suc n)
  have "[rayCount s ..< rayCount s + Suc n] = rayCount s # [Suc (rayCount s) ..< Suc (rayCount s) + n]"
    by (simp add: upt_conv_Cons)
  with Suc [of "spawnLightRay s"] show ?case
    by (simp add: spawnLightRay_rays spawnLightRay_rayCount)
qed

lemma fresh_spawn_nth:
  "i < n \<Longrightarrow> lightRays (spawn_times n BlackHoleSimulation_ctor) ! i = spawned_ray i"
  by (simp add: spawn_times_rays BlackHoleSimulation_ctor_def)

lemma spawned_ray_start:
  "currentPosition (spawned_ray n) = Vector2f (- 50) (real (50 + (n mod 15) * 50))"
  "path (spawned_ray n) = [Vector2f (- 50) (real (50 + (n mod 15) * 50))]"
  "currentVelocity (spawned_ray n) = Vector2f 200 0"
  "color (spawned_ray n) = colors ! (n mod 7)"
  "\<not> absorbed (spawned_ray n)"
  by (simp_all add: spawned_ray_def LightRay_ctor_def)

lemma distinct_colors: "distinct colors" and length_colors: "length colors = 7"
  by (simp_all add: colors_def)

lemma spawned_ray_same_color: "color (spawned_ray i) = color (spawned_ray j) \<longleftrightarrow> i mod 7 = j mod 7"
  by (simp add: spawned_ray_start nth_eq_iff_index_eq distinct_colors length_colors)

lemma spawned_ray_same_offset:
  "vy (currentPosition (spawned_ray i)) = vy (currentPosition (spawned_ray j)) \<longleftrightarrow> i mod 15 = j mod 15"
  by (simp add: spawned_ray_start)

subsection \<open>C4: the sixteenth ray\<close>

text \<open>
  The sixteenth ray of a fresh simulation is spawned with the counter at 15, the first
  with the counter at 0: their colours differ.
\<close>

theorem sixteenth_ray_color_counterexample:
  "color (lightRays (spawn_times 16 BlackHoleSimulation_ctor) ! 15)
   \<noteq> color (lightRays (spawn_times 16 BlackHoleSimulation_ctor) ! 0)"
  by (simp add: fresh_spawn_nth spawned_ray_same_color)

text \<open>
  Claim C4, amended. After 16 calls of \<open>spawnLightRay\<close> on a fresh simulation there
  are 16 rays; the sixteenth starts at the same height as the first, 50, since 15 mod 15
  is 0; the first is red, entry 0 of the palette, and the sixteenth is green, entry
  15 mod 7 = 1.
\<close>

theorem sixteenth_ray_offset_and_color:
  "vy (currentPosition (lightRays (spawn_times 16 BlackHoleSimulation_ctor) ! 15))
     = vy (currentPosition (lightRays (spawn_times 16 BlackHoleSimulation_ctor) ! 0))
   \<and> vy (currentPosition (lightRays (spawn_times 16 BlackHoleSimulation_ctor) ! 0)) = 50
   \<and> color (lightRays (spawn_times 16 BlackHoleSimulation_ctor) ! 0) = Red
   \<and> color (lightRays (spawn_times 16 BlackHoleSimulation_ctor) ! 15) = Green
   \<and> length (lightRays (spawn_times 16 BlackHoleSimulation_ctor)) = 16"
  by (simp add: fresh_spawn_nth spawned_ray_start colors_def spawn_times_rays
      BlackHoleSimulation_ctor_def)

text \<open>Height and colour repeat together exactly when the counters agree modulo 15 and 7.\<close>

lemma spawn_repeats_every_105:
  "i < n \<Longrightarrow> j < n \<Longrightarrow>
   (vy (currentPosition (lightRays (spawn_times n BlackHoleSimulation_ctor) ! i))
      = vy (currentPosition (lightRays (spawn_times n BlackHoleSimulation_ctor) ! j))
    \<and> color (lightRays (spawn_times n BlackHoleSimulation_ctor) ! i)
      = color (lightRays (spawn_times n BlackHoleSimulation_ctor) ! j))
   \<longleftrightarrow> i mod 15 = j mod 15 \<and> i mod 7 = j mod 7"
  by (simp add: fresh_spawn_nth spawned_ray_same_color spawned_ray_same_offset)

subsection \<open>C8: reset\<close>

text \<open>
  Claim C8. The handler of the key R empties the ray collection and sets the spawn
  counter to 0; the gravity source, the spawn timer and the window are as before. The
  next \<open>spawnLightRay\<close> then adds the very ray that the first spawn of a fresh
  simulation adds: started at (-50, 50), red.
\<close>

theorem reset_then_spawn:
  "lightRays (handleEvent (KeyPressed KeyR) s) = []
   \<and> rayCount (handleEvent (KeyPressed KeyR) s) = 0
   \<and> blackHole (handleEvent (KeyPressed KeyR) s) = blackHole s
   \<and> raySpawnTimer (handleEvent (KeyPressed KeyR) s) = raySpawnTimer s
   \<and> windowOpen (handleEvent (KeyPressed KeyR) s) = windowOpen s
   \<and> handleEvents [KeyPressed KeyR] s = handleEvent (KeyPressed KeyR) s
   \<and> lightRays (spawnLightRay (handleEvent (KeyPressed KeyR) s))
       = lightRays (spawnLightRay BlackHoleSimulation_ctor)
   \<and> lightRays (spawnLightRay (handleEvent (KeyPressed KeyR) s))
       = [LightRay_ctor (Vector2f (- 50) 50) (Vector2f 200 0) Red]"
  by (simp add: spawnLightRay_rays BlackHoleSimulation_ctor_def spawned_ray_def colors_def)

text \<open>Reset after nine spawns.\<close>

theorem reset_then_spawn_witness:
  "lightRays (handleEvent (KeyPressed KeyR) (spawn_times 9 BlackHoleSimulation_ctor)) = []
   \<and> rayCount (spawn_times 9 BlackHoleSimulation_ctor) = 9
   \<and> rayCount (handleEvent (KeyPressed KeyR) (spawn_times 9 BlackHoleSimulation_ctor)) = 0
   \<and> lightRays (spawnLightRay (handleEvent (KeyPressed KeyR) (spawn_times 9 BlackHoleSimulation_ctor)))
       = [LightRay_ctor (Vector2f (- 50) 50) (Vector2f 200 0) Red]"
proof -
  have "rayCount (spawn_times 9 BlackHoleSimulation_ctor) = 9"
    by (simp add: spawn_times_rayCount BlackHoleSimulation_ctor_def)
  with reset_then_spawn [of "spawn_times 9 BlackHoleSimulation_ctor"] show ?thesis
    by blast
qed

subsection \<open>A call of update that returns\<close>

lemma distance_to_nonneg: "0 \<le> distance_to b r"
  by (simp add: distance_to_def magnitude_nonneg)

lemma deflection_divisor_pos:
  "0 \<le> impactParameter r \<Longrightarrow> 1 \<le> distance_to b r * impactParameter r + 1"
  by (simp add: distance_to_nonneg)

lemma update_returns:
  assumes radius: "0 < getSchwarzschildRadius b" and impact: "0 \<le> impactParameter r"
  shows "\<exists>r'. update b dt r = Inr r'"
proof (cases "absorbed r \<or> distance_to b r < getSchwarzschildRadius b")
  case True
  then show ?thesis
    by (cases "absorbed r") (simp_all add: update_when_absorbed update_capture)
next
  case False
  with radius have "0 < distance_to b r"
    by linarith
  then have sq: "distance_to b r * distance_to b r \<noteq> 0"
    by simp
  from deflection_divisor_pos [OF impact, of b]
  have den: "distance_to b r * impactParameter r + 1 \<noteq> 0"
    by linarith
  from False sq den show ?thesis
    unfolding update_def distance_to_def Let_def fdiv_def by simp
qed

lemma update_rays_returns:
  assumes "0 < getSchwarzschildRadius b" and "list_all (\<lambda>r. 0 \<le> impactParameter r) rs"
  shows "\<exists>rs'. update_rays b dt rs = Inr rs'"
  using assms(2)
proof (induction rs)
  case Nil
  then show ?case by simp
next
  case (Cons r rs)
  then obtain rs' where "update_rays b dt rs = Inr rs'"
    by auto
  moreover from Cons.prems update_returns [OF assms(1), of r dt]
  obtain r' where "update b dt r = Inr r'"
    by auto
  ultimately show ?case
    by simp
qed

lemma update_rays_impactParameter:
  "update_rays b dt rs = Inr rs' \<Longrightarrow> list_all (\<lambda>r. 0 \<le> impactParameter r) rs \<Longrightarrow>
   list_all (\<lambda>r. 0 \<le> impactParameter r) rs'"
proof (induction rs arbitrary: rs')
  case Nil
  then show ?case by simp
next
  case (Cons r rs)
  from Cons.prems(1) obtain r1 rs1 where
    1: "update b dt r = Inr r1" and 2: "update_rays b dt rs = Inr rs1" and 3: "rs' = r1 # rs1"
    by (auto split: sum.splits)
  from Cons.IH [OF 2] Cons.prems(2) update_impactParameter [OF 1] 3 show ?case
    by simp
qed

lemma update_rays_keeps_absorbed:
  "update_rays b dt rs = Inr rs' \<Longrightarrow> r \<in> set rs \<Longrightarrow> absorbed r \<Longrightarrow> r \<in> set rs'"
proof (induction rs arbitrary: rs')
  case Nil
  then show ?case by simp
next
  case (Cons a rs)
  from Cons.prems(1) obtain a1 rs1 where
    1: "update b dt a = Inr a1" and 2: "update_rays b dt rs = Inr rs1" and 3: "rs' = a1 # rs1"
    by (auto split: sum.splits)
  show ?case
  proof (cases "r = a")
    case True
    with Cons.prems(3) 1 have "a1 = r"
      by (simp add: update_when_absorbed)
    with 3 show ?thesis by simp
  next
    case False
    with Cons.prems(2) have "r \<in> set rs" by simp
    from Cons.IH [OF 2 this Cons.prems(3)] 3 show ?thesis by simp
  qed
qed

subsection \<open>C3: the impact parameter and the gravity source\<close>

text \<open>
  Claim C3 asks for the impact parameter to be the absolute difference between the start
  height of the ray and the height of whatever gravity source the ray is simulated
  against, which is what the comment in the constructor announces. The constructor is
  given no gravity source and uses half the window height. A ray started at height 50
  has the impact parameter 350; the gravity source at (600, 300) is 250 below its start;
  and an update against that source returns the ray with the impact parameter still 350.
\<close>

theorem impactParameter_ignores_source:
  "impactParameter (LightRay_ctor (Vector2f (- 50) 50) (Vector2f 200 0) Red) = 350
   \<and> \<bar>vy (Vector2f (- 50) 50) - vy (getPosition (BlackHole_ctor (Vector2f 600 300) 50))\<bar> = 250
   \<and> (\<exists>r'. update (BlackHole_ctor (Vector2f 600 300) 50) (1 / 60)
               (LightRay_ctor (Vector2f (- 50) 50) (Vector2f 200 0) Red) = Inr r'
          \<and> impactParameter r' = 350)"
proof -
  let ?b = "BlackHole_ctor (Vector2f 600 300) 50"
  let ?r = "LightRay_ctor (Vector2f (- 50) 50) (Vector2f 200 0) Red"
  have impact: "impactParameter ?r = 350"
    by (simp add: LightRay_ctor_impactParameter)
  have height: "\<bar>vy (Vector2f (- 50) 50) - vy (getPosition ?b)\<bar> = 250"
    by (simp add: BlackHole_ctor_def getPosition_def)
  have "0 < getSchwarzschildRadius ?b"
    by (simp add: BlackHole_ctor_def getSchwarzschildRadius_def)
  from update_returns [OF this, of ?r "1 / 60"] impact obtain r' where
    r': "update ?b (1 / 60) ?r = Inr r'"
    by auto
  from update_impactParameter [OF r'] impact have "impactParameter r' = 350"
    by simp
  with r' impact height show ?thesis
    by blast
qed

subsection \<open>The spawn timer\<close>

lemma spawn_phase_spawns:
  "spawn_interval < raySpawnTimer s + dt \<Longrightarrow>
   spawn_phase dt s =
     s\<lparr>lightRays := lightRays s @ [spawned_ray (rayCount s)],
       rayCount := rayCount s + 1, raySpawnTimer := 0\<rparr>"
  by (simp add: spawn_phase_def spawnLightRay_def spawned_ray_def Let_def)

lemma spawn_phase_waits:
  "\<not> spawn_interval < raySpawnTimer s + dt \<Longrightarrow> spawn_phase dt s = s\<lparr>raySpawnTimer := raySpawnTimer s + dt\<rparr>"
  by (simp add: spawn_phase_def Let_def)

lemma spawn_phase_blackHole: "blackHole (spawn_phase dt s) = blackHole s"
  by (cases "spawn_interval < raySpawnTimer s + dt") (simp_all add: spawn_phase_spawns spawn_phase_waits)

lemma spawn_phase_keeps_rays: "set (lightRays s) \<subseteq> set (lightRays (spawn_phase dt s))"
  by (cases "spawn_interval < raySpawnTimer s + dt") (auto simp: spawn_phase_spawns spawn_phase_waits)

lemma spawned_ray_impactParameter: "0 \<le> impactParameter (spawned_ray n)"
  by (simp add: spawned_ray_def LightRay_ctor_def)

lemma spawn_phase_invariant: "sim_invariant s \<Longrightarrow> sim_invariant (spawn_phase dt s)"
  by (cases "spawn_interval < raySpawnTimer s + dt")
    (simp_all add: spawn_phase_spawns spawn_phase_waits sim_invariant_def
      spawned_ray_impactParameter)

lemma update_sim_counters:
  "update_sim dt s = Inr s' \<Longrightarrow>
   rayCount s' = rayCount (spawn_phase dt s) \<and> raySpawnTimer s' = raySpawnTimer (spawn_phase dt s)
   \<and> blackHole s' = blackHole s \<and> windowOpen s' = windowOpen (spawn_phase dt s)"
  by (auto simp: update_sim_def Let_def spawn_phase_blackHole split: sum.splits)

lemma update_sim_returns:
  assumes "sim_invariant s"
  shows "\<exists>s'. update_sim dt s = Inr s' \<and> sim_invariant s'"
proof -
  let ?s2 = "spawn_phase dt s"
  from spawn_phase_invariant [OF assms, of dt]
  have radius: "0 < getSchwarzschildRadius (blackHole ?s2)"
    and impacts: "list_all (\<lambda>r. 0 \<le> impactParameter r) (lightRays ?s2)"
    by (simp_all add: sim_invariant_def)
  from update_rays_returns [OF radius impacts, of dt]
  obtain rs where rs: "update_rays (blackHole ?s2) dt (lightRays ?s2) = Inr rs"
    by auto
  from update_rays_impactParameter [OF rs impacts]
  have "list_all (\<lambda>r. 0 \<le> impactParameter r) (filter (\<lambda>ray. \<not> isOffScreen ray) rs)"
    by (simp add: list_all_iff)
  with rs radius show ?thesis
    by (simp add: update_sim_def Let_def sim_invariant_def)
qed

lemma update_sim_keeps_absorbed:
  assumes "update_sim dt s = Inr s'" and "r \<in> set (lightRays s)" and "absorbed r"
  shows "r \<in> set (lightRays s')"
proof -
  let ?s2 = "spawn_phase dt s"
  from assms(1) obtain rs where
    rs: "update_rays (blackHole ?s2) dt (lightRays ?s2) = Inr rs"
    and s': "lightRays s' = filter (\<lambda>ray. \<not> isOffScreen ray) rs"
    by (auto simp: update_sim_def Let_def split: sum.splits)
  from assms(2) spawn_phase_keeps_rays [of s dt] have "r \<in> set (lightRays ?s2)"
    by blast
  from update_rays_keeps_absorbed [OF rs this assms(3)] assms(3) s' show ?thesis
    by (simp add: isOffScreen_def)
qed

lemma ctor_invariant: "sim_invariant BlackHoleSimulation_ctor"
  by (simp add: sim_invariant_def BlackHoleSimulation_ctor_def BlackHole_ctor_def
      getSchwarzschildRadius_def)

lemma handleEvent_invariant: "sim_invariant s \<Longrightarrow> sim_invariant (handleEvent e s)"
  by (induction e s rule: handleEvent.induct) (simp_all add: sim_invariant_def)

lemma handleEvents_invariant: "sim_invariant s \<Longrightarrow> sim_invariant (handleEvents es s)"
  by (induction es arbitrary: s) (simp_all add: handleEvent_invariant)

subsection \<open>C9: at most one spawn in a tick\<close>

lemma spawn_interval_bounds: "3 / 10 < spawn_interval" "spawn_interval < 301 / 1000"
  by (simp_all add: spawn_interval_def)

lemma exact_sum:
  "spawn_phase_with (+) dt s = spawn_phase dt s" "update_sim_with (+) dt s = update_sim dt s"
  by (simp_all add: spawn_phase_with_def spawn_phase_def update_sim_with_def update_sim_def)

lemma spawn_phase_with_spawns:
  "spawn_interval < fadd (raySpawnTimer s) dt \<Longrightarrow>
   spawn_phase_with fadd dt s =
     s\<lparr>lightRays := lightRays s @ [spawned_ray (rayCount s)],
       rayCount := rayCount s + 1, raySpawnTimer := 0\<rparr>"
  by (simp add: spawn_phase_with_def spawnLightRay_def spawned_ray_def Let_def)

lemma spawn_phase_with_waits:
  "\<not> spawn_interval < fadd (raySpawnTimer s) dt \<Longrightarrow>
   spawn_phase_with fadd dt s = s\<lparr>raySpawnTimer := fadd (raySpawnTimer s) dt\<rparr>"
  by (simp add: spawn_phase_with_def Let_def)

lemma spawn_phase_with_invariant:
  "sim_invariant s \<Longrightarrow> sim_invariant (spawn_phase_with fadd dt s)"
  by (cases "spawn_interval < fadd (raySpawnTimer s) dt")
    (simp_all add: spawn_phase_with_spawns spawn_phase_with_waits sim_invariant_def
      spawned_ray_impactParameter)

lemma update_sim_with_counters:
  "update_sim_with fadd dt s = Inr s' \<Longrightarrow>
   rayCount s' = rayCount (spawn_phase_with fadd dt s)
   \<and> raySpawnTimer s' = raySpawnTimer (spawn_phase_with fadd dt s)"
  by (auto simp: update_sim_with_def Let_def split: sum.splits)

lemma update_sim_with_returns:
  assumes "sim_invariant s"
  shows "\<exists>s'. update_sim_with fadd dt s = Inr s' \<and> sim_invariant s'"
proof -
  let ?s2 = "spawn_phase_with fadd dt s"
  from spawn_phase_with_invariant [OF assms, of fadd dt]
  have radius: "0 < getSchwarzschildRadius (blackHole ?s2)"
    and impacts: "list_all (\<lambda>r. 0 \<le> impactParameter r) (lightRays ?s2)"
    by (simp_all add: sim_invariant_def)
  from update_rays_returns [OF radius impacts, of dt]
  obtain rs where rs: "update_rays (blackHole ?s2) dt (lightRays ?s2) = Inr rs"
    by auto
  from update_rays_impactParameter [OF rs impacts]
  have "list_all (\<lambda>r. 0 \<le> impactParameter r) (filter (\<lambda>ray. \<not> isOffScreen ray) rs)"
    by (simp add: list_all_iff)
  with rs radius show ?thesis
    by (simp add: update_sim_with_def Let_def sim_invariant_def)
qed

text \<open>
  Claim C9. In one tick the time step is added to the spawn timer, and the sum, however
  the float addition rounds it, is compared once with the interval \<open>0.3f\<close>. If it
  exceeds the interval, whatever the time step, \<open>spawnLightRay\<close> runs once (one ray
  appended, the counter up by one and still an \<open>int\<close>) and the timer is set to 0, not
  to the sum less the interval; if not, nothing is spawned and the timer keeps the sum. So
  the counter grows by at most one. The rest of the tick changes neither counter nor
  timer, and from a state that satisfies the invariant the tick returns. The counter is
  taken to be below \<open>INT_MAX\<close> when the tick spawns.
\<close>

theorem one_spawn_per_tick:
  assumes "spawn_interval < fadd (raySpawnTimer s) dt \<longrightarrow> rayCount s < INT_MAX"
  shows "rayCount (spawn_phase_with fadd dt s)
     = (if spawn_interval < fadd (raySpawnTimer s) dt then rayCount s + 1 else rayCount s)
   \<and> rayCount (spawn_phase_with fadd dt s) \<le> rayCount s + 1
   \<and> (rayCount s \<le> INT_MAX \<longrightarrow> rayCount (spawn_phase_with fadd dt s) \<le> INT_MAX)
   \<and> raySpawnTimer (spawn_phase_with fadd dt s)
     = (if spawn_interval < fadd (raySpawnTimer s) dt then 0 else fadd (raySpawnTimer s) dt)
   \<and> lightRays (spawn_phase_with fadd dt s)
     = (if spawn_interval < fadd (raySpawnTimer s) dt
        then lightRays s @ [LightRay_ctor (Vector2f (- 50) (real (50 + (rayCount s mod 15) * 50)))
                              (Vector2f 200 0) (colors ! (rayCount s mod 7))]
        else lightRays s)
   \<and> (\<forall>s'. update_sim_with fadd dt s = Inr s' \<longrightarrow>
         rayCount s'
           = (if spawn_interval < fadd (raySpawnTimer s) dt then rayCount s + 1 else rayCount s)
         \<and> raySpawnTimer s'
           = (if spawn_interval < fadd (raySpawnTimer s) dt then 0
              else fadd (raySpawnTimer s) dt))
   \<and> (sim_invariant s \<longrightarrow> (\<exists>s'. update_sim_with fadd dt s = Inr s' \<and> sim_invariant s'))"
proof -
  let ?due = "spawn_interval < fadd (raySpawnTimer s) dt"
  have phase: "rayCount (spawn_phase_with fadd dt s)
       = (if ?due then rayCount s + 1 else rayCount s)"
    "raySpawnTimer (spawn_phase_with fadd dt s)
       = (if ?due then 0 else fadd (raySpawnTimer s) dt)"
    "lightRays (spawn_phase_with fadd dt s)
       = (if ?due
          then lightRays s @ [LightRay_ctor (Vector2f (- 50) (real (50 + (rayCount s mod 15) * 50)))
                                (Vector2f 200 0) (colors ! (rayCount s mod 7))]
          else lightRays s)"
    by (cases ?due; simp add: spawn_phase_with_spawns spawn_phase_with_waits spawned_ray_def)+
  from phase(1) have step: "rayCount (spawn_phase_with fadd dt s) \<le> rayCount s + 1"
    by simp
  from phase(1) assms
  have range: "rayCount s \<le> INT_MAX \<longrightarrow> rayCount (spawn_phase_with fadd dt s) \<le> INT_MAX"
    by (cases ?due) simp_all
  have tick: "\<forall>s'. update_sim_with fadd dt s = Inr s' \<longrightarrow>
         rayCount s' = (if ?due then rayCount s + 1 else rayCount s)
         \<and> raySpawnTimer s' = (if ?due then 0 else fadd (raySpawnTimer s) dt)"
  proof (intro allI impI)
    fix s'
    assume "update_sim_with fadd dt s = Inr s'"
    from update_sim_with_counters [OF this] phase(1,2)
    show "rayCount s' = (if ?due then rayCount s + 1 else rayCount s)
         \<and> raySpawnTimer s' = (if ?due then 0 else fadd (raySpawnTimer s) dt)"
      by (simp only:)
  qed
  from update_sim_with_returns [of s fadd dt]
  have "sim_invariant s \<longrightarrow> (\<exists>s'. update_sim_with fadd dt s = Inr s' \<and> sim_invariant s')"
    by blast
  with phase step range tick show ?thesis
    by blast
qed

text \<open>
  A fresh simulation ticked, with the exact sum, with 10 seconds, with an eighth of a
  second, and with exactly the interval, which the timer then equals and does not exceed.
\<close>

theorem one_spawn_per_tick_witness:
  "sim_invariant BlackHoleSimulation_ctor
   \<and> rayCount BlackHoleSimulation_ctor = 0
   \<and> rayCount BlackHoleSimulation_ctor < INT_MAX
   \<and> rayCount (spawn_phase_with (+) 10 BlackHoleSimulation_ctor) = 1
   \<and> raySpawnTimer (spawn_phase_with (+) 10 BlackHoleSimulation_ctor) = 0
   \<and> lightRays (spawn_phase_with (+) 10 BlackHoleSimulation_ctor)
       = [LightRay_ctor (Vector2f (- 50) 50) (Vector2f 200 0) Red]
   \<and> (\<exists>s'. update_sim_with (+) 10 BlackHoleSimulation_ctor = Inr s' \<and> sim_invariant s'
         \<and> rayCount s' = 1 \<and> raySpawnTimer s' = 0)
   \<and> rayCount (spawn_phase_with (+) (1 / 8) BlackHoleSimulation_ctor) = 0
   \<and> raySpawnTimer (spawn_phase_with (+) (1 / 8) BlackHoleSimulation_ctor) = 1 / 8
   \<and> lightRays (spawn_phase_with (+) (1 / 8) BlackHoleSimulation_ctor) = []
   \<and> rayCount (spawn_phase_with (+) spawn_interval BlackHoleSimulation_ctor) = 0
   \<and> raySpawnTimer (spawn_phase_with (+) spawn_interval BlackHoleSimulation_ctor)
       = spawn_interval"
proof -
  let ?s = BlackHoleSimulation_ctor
  have start: "rayCount ?s = 0" "raySpawnTimer ?s = 0" "lightRays ?s = []"
    by (simp_all add: BlackHoleSimulation_ctor_def)
  have room: "rayCount ?s < INT_MAX"
    by (simp add: start INT_MAX_def)
  have late: "spawn_interval < raySpawnTimer ?s + 10"
    and early: "\<not> spawn_interval < raySpawnTimer ?s + 1 / 8"
    and edge: "\<not> spawn_interval < raySpawnTimer ?s + spawn_interval"
    using spawn_interval_bounds by (simp_all add: start)
  from room have long: "spawn_interval < raySpawnTimer ?s + 10 \<longrightarrow> rayCount ?s < INT_MAX"
    and short: "spawn_interval < raySpawnTimer ?s + 1 / 8 \<longrightarrow> rayCount ?s < INT_MAX"
    and exact: "spawn_interval < raySpawnTimer ?s + spawn_interval \<longrightarrow> rayCount ?s < INT_MAX"
    by simp_all
  note long_tick = one_spawn_per_tick [of "(+)" ?s 10, OF long]
  note short_tick = one_spawn_per_tick [of "(+)" ?s "1 / 8", OF short]
  note exact_tick = one_spawn_per_tick [of "(+)" ?s spawn_interval, OF exact]
  from long_tick late start have 1: "rayCount (spawn_phase_with (+) 10 ?s) = 1"
    "raySpawnTimer (spawn_phase_with (+) 10 ?s) = 0"
    "lightRays (spawn_phase_with (+) 10 ?s)
       = [LightRay_ctor (Vector2f (- 50) 50) (Vector2f 200 0) Red]"
    by (simp_all add: colors_def)
  from long_tick ctor_invariant obtain s' where
    s': "update_sim_with (+) 10 ?s = Inr s'" "sim_invariant s'"
    by blast
  from long_tick s'(1) late start
  have "rayCount s' = 1 \<and> raySpawnTimer s' = 0"
    by simp
  with s' have 2: "\<exists>s'. update_sim_with (+) 10 ?s = Inr s' \<and> sim_invariant s'
         \<and> rayCount s' = 1 \<and> raySpawnTimer s' = 0"
    by blast
  from short_tick early start
  have 3: "rayCount (spawn_phase_with (+) (1 / 8) ?s) = 0"
    "raySpawnTimer (spawn_phase_with (+) (1 / 8) ?s) = 1 / 8"
    "lightRays (spawn_phase_with (+) (1 / 8) ?s) = []"
    by simp_all
  from exact_tick edge start
  have 4: "rayCount (spawn_phase_with (+) spawn_interval ?s) = 0"
    "raySpawnTimer (spawn_phase_with (+) spawn_interval ?s) = spawn_interval"
    by simp_all
  from ctor_invariant start(1) room 1 2 3 4 show ?thesis
    by blast
qed

subsection \<open>C6: off-screen rays\<close>

lemma isOffScreen_iff:
  "isOffScreen r \<longleftrightarrow> \<not> absorbed r \<and> \<not> inside_expanded_frame (currentPosition r)"
  by (auto simp: isOffScreen_def inside_expanded_frame_def WINDOW_WIDTH_def WINDOW_HEIGHT_def)

lemma spawned_ray_inside: "inside_expanded_frame (currentPosition (spawned_ray n))"
proof -
  have "n mod 15 < 15" by simp
  then have "(n mod 15) * 50 \<le> 14 * 50"
    by (intro mult_right_mono) simp_all
  then have "real (50 + (n mod 15) * 50) \<le> 750"
    by linarith
  then show ?thesis
    by (simp add: spawned_ray_start inside_expanded_frame_def WINDOW_WIDTH_def
        WINDOW_HEIGHT_def)
qed

text \<open>
  Claim C6. \<open>isOffScreen\<close> holds exactly for a ray that is not absorbed and whose
  position is outside the frame grown by 100 on each side. So it is false for the ray
  that \<open>spawnLightRay\<close> has just added, for every ray constructed at (-50, y) inside
  the grown frame, and for every absorbed ray wherever it is; the removal of a tick keeps
  every absorbed ray.
\<close>

theorem isOffScreen_spares_absorbed:
  "(isOffScreen r \<longleftrightarrow> \<not> absorbed r \<and> \<not> inside_expanded_frame (currentPosition r))
   \<and> \<not> isOffScreen (last (lightRays (spawnLightRay s)))
   \<and> (inside_expanded_frame (Vector2f (- 50) y) \<longrightarrow>
        \<not> isOffScreen (LightRay_ctor (Vector2f (- 50) y) v c))
   \<and> (absorbed r \<longrightarrow> \<not> isOffScreen r)
   \<and> (absorbed r \<and> r \<in> set rs \<longrightarrow> r \<in> set (filter (\<lambda>ray. \<not> isOffScreen ray) rs))
   \<and> (absorbed r \<and> r \<in> set (lightRays s) \<and> update_sim dt s = Inr s' \<longrightarrow>
        r \<in> set (lightRays s'))"
proof -
  have "\<not> isOffScreen (last (lightRays (spawnLightRay s)))"
    by (simp add: spawnLightRay_rays isOffScreen_iff spawned_ray_inside)
  moreover have "inside_expanded_frame (Vector2f (- 50) y) \<longrightarrow>
        \<not> isOffScreen (LightRay_ctor (Vector2f (- 50) y) v c)"
    by (simp add: isOffScreen_iff LightRay_ctor_def)
  moreover have "absorbed r \<and> r \<in> set rs \<longrightarrow> r \<in> set (filter (\<lambda>ray. \<not> isOffScreen ray) rs)"
    by (simp add: isOffScreen_iff)
  moreover have "absorbed r \<and> r \<in> set (lightRays s) \<and> update_sim dt s = Inr s' \<longrightarrow>
        r \<in> set (lightRays s')"
    using update_sim_keeps_absorbed [of dt s s' r] by blast
  ultimately show ?thesis
    using isOffScreen_iff [of r] by blast
qed

text \<open>
  An absorbed ray far outside the frame is kept, a live ray one pixel beyond the right
  margin is off screen, a ray constructed at (-50, 750) is not.
\<close>

theorem isOffScreen_spares_absorbed_witness:
  "absorbed ((LightRay_ctor (Vector2f 5000 5000) (Vector2f 200 0) Red)\<lparr>absorbed := True\<rparr>)
   \<and> \<not> inside_expanded_frame (currentPosition
         ((LightRay_ctor (Vector2f 5000 5000) (Vector2f 200 0) Red)\<lparr>absorbed := True\<rparr>))
   \<and> \<not> isOffScreen ((LightRay_ctor (Vector2f 5000 5000) (Vector2f 200 0) Red)\<lparr>absorbed := True\<rparr>)
   \<and> \<not> absorbed (LightRay_ctor (Vector2f 1301 400) (Vector2f 200 0) Red)
   \<and> isOffScreen (LightRay_ctor (Vector2f 1301 400) (Vector2f 200 0) Red)
   \<and> inside_expanded_frame (Vector2f (- 50) 750)
   \<and> \<not> isOffScreen (LightRay_ctor (Vector2f (- 50) 750) (Vector2f 200 0) White)
   \<and> (LightRay_ctor (Vector2f 5000 5000) (Vector2f 200 0) Red)\<lparr>absorbed := True\<rparr>
       \<in> set (filter (\<lambda>ray. \<not> isOffScreen ray)
           [LightRay_ctor (Vector2f 1301 400) (Vector2f 200 0) Red,
            (LightRay_ctor (Vector2f 5000 5000) (Vector2f 200 0) Red)\<lparr>absorbed := True\<rparr>])
   \<and> (\<exists>s'. update_sim (1 / 60)
          (BlackHoleSimulation_ctor\<lparr>lightRays :=
             [(LightRay_ctor (Vector2f 5000 5000) (Vector2f 200 0) Red)\<lparr>absorbed := True\<rparr>]\<rparr>)
          = Inr s'
        \<and> (LightRay_ctor (Vector2f 5000 5000) (Vector2f 200 0) Red)\<lparr>absorbed := True\<rparr>
            \<in> set (lightRays s'))"
proof -
  let ?a = "(LightRay_ctor (Vector2f 5000 5000) (Vector2f 200 0) Red)\<lparr>absorbed := True\<rparr>"
  let ?out = "LightRay_ctor (Vector2f 1301 400) (Vector2f 200 0) Red"
  let ?new = "LightRay_ctor (Vector2f (- 50) 750) (Vector2f 200 0) White"
  let ?s = "BlackHoleSimulation_ctor\<lparr>lightRays := [?a]\<rparr>"
  have a: "absorbed ?a"
    by simp
  have far: "\<not> inside_expanded_frame (currentPosition ?a)"
    by (simp add: inside_expanded_frame_def LightRay_ctor_def WINDOW_WIDTH_def)
  have live: "\<not> absorbed ?out"
    by (simp add: LightRay_ctor_def)
  have right: "\<not> inside_expanded_frame (currentPosition ?out)"
    by (simp add: inside_expanded_frame_def LightRay_ctor_def WINDOW_WIDTH_def)
  have left: "inside_expanded_frame (Vector2f (- 50) 750)"
    by (simp add: inside_expanded_frame_def WINDOW_WIDTH_def WINDOW_HEIGHT_def)
  have "sim_invariant ?s"
    using ctor_invariant by (simp add: sim_invariant_def LightRay_ctor_def)
  from update_sim_returns [OF this, of "1 / 60"] obtain s' where
    s': "update_sim (1 / 60) ?s = Inr s'"
    by blast
  have mem: "?a \<in> set (lightRays ?s)" "?a \<in> set [?out, ?a]"
    by simp_all
  from isOffScreen_spares_absorbed [of ?a ?s "- 50" "Vector2f 200 0" White "[?out, ?a]" "1 / 60" s']
    a mem s'
  have 1: "\<not> isOffScreen ?a" "?a \<in> set (filter (\<lambda>ray. \<not> isOffScreen ray) [?out, ?a])"
    "?a \<in> set (lightRays s')"
    by blast+
  from isOffScreen_spares_absorbed [of ?out ?s 750 "Vector2f 200 0" White "[]" 0 ?s]
    live right left
  have 2: "isOffScreen ?out" "\<not> isOffScreen ?new"
    by blast+
  from s' 1(3) have "\<exists>s'. update_sim (1 / 60) ?s = Inr s' \<and> ?a \<in> set (lightRays s')"
    by blast
  with a far live left 1 2 show ?thesis
    by blast
qed

subsection \<open>C5: the divisions of update\<close>

lemma update_fails_iff:
  assumes live: "\<not> absorbed r" and far: "\<not> distance_to b r < getSchwarzschildRadius b"
    and impact: "0 \<le> impactParameter r"
  shows "update b dt r = Inl DivisionByZero \<longleftrightarrow> distance_to b r = 0"
    and "(\<exists>r'. update b dt r = Inr r') \<longleftrightarrow> distance_to b r \<noteq> 0"
proof -
  from deflection_divisor_pos [OF impact, of b]
  have den: "distance_to b r * impactParameter r + 1 \<noteq> 0"
    by linarith
  from live far den show "update b dt r = Inl DivisionByZero \<longleftrightarrow> distance_to b r = 0"
    unfolding update_def distance_to_def Let_def fdiv_def by simp
  from live far den show "(\<exists>r'. update b dt r = Inr r') \<longleftrightarrow> distance_to b r \<noteq> 0"
    unfolding update_def distance_to_def Let_def fdiv_def by simp
qed

lemma reachable_impactParameter:
  "updates calls (LightRay_ctor p v c) = Inr r \<Longrightarrow> 0 \<le> impactParameter r"
  using updates_impactParameter [of calls "LightRay_ctor p v c" r]
  by (simp add: LightRay_ctor_def)

text \<open>
  A gravity source of mass 0 has capture radius 0. A ray that sits on it is at distance 0,
  which is not below the capture radius, so \<open>update\<close> goes on and divides by the
  square of the distance.
\<close>

theorem division_by_zero_counterexample:
  "\<not> absorbed (LightRay_ctor (Vector2f 600 400) (Vector2f 200 0) Red)
   \<and> \<not> distance_to (BlackHole_ctor (Vector2f 600 400) 0)
          (LightRay_ctor (Vector2f 600 400) (Vector2f 200 0) Red)
        < getSchwarzschildRadius (BlackHole_ctor (Vector2f 600 400) 0)
   \<and> update (BlackHole_ctor (Vector2f 600 400) 0) (1 / 60)
        (LightRay_ctor (Vector2f 600 400) (Vector2f 200 0) Red)
      = Inl DivisionByZero"
proof -
  let ?b = "BlackHole_ctor (Vector2f 600 400) 0"
  let ?r = "LightRay_ctor (Vector2f 600 400) (Vector2f 200 0) Red"
  have live: "\<not> absorbed ?r" and impact: "0 \<le> impactParameter ?r"
    by (simp_all add: LightRay_ctor_def)
  have d: "distance_to ?b ?r = 0"
    by (simp add: distance_to_def BlackHole_ctor_def getPosition_def LightRay_ctor_def
        vsub_def magnitude_x_axis)
  have radius: "getSchwarzschildRadius ?b = 0"
    by (simp add: BlackHole_ctor_def getSchwarzschildRadius_def)
  from d radius have far: "\<not> distance_to ?b ?r < getSchwarzschildRadius ?b"
    by simp
  from update_fails_iff(1) [OF live far impact, of "1 / 60"] d live far show ?thesis
    by blast
qed

text \<open>
  Claim C5, amended. Take a ray as the constructor and any run of \<open>update\<close> calls
  leave it, not absorbed, at a distance from the gravity source that is not below the
  capture radius. The divisor of the deflection factor, distance times impact parameter
  plus 1, is at least 1, so it is not zero, also when the impact parameter is 0; and
  \<open>normalized\<close> maps a vector of magnitude 0 to the zero vector. The third division
  of \<open>update\<close>, by the square of the distance, is the only one that can have a zero
  divisor: \<open>update\<close> returns a ray exactly when that square is not zero, which it is
  not whenever the capture radius is positive.
\<close>

theorem update_divisions:
  assumes reach: "updates calls (LightRay_ctor p v c) = Inr r"
    and live: "\<not> absorbed r"
    and far: "\<not> distance_to b r < getSchwarzschildRadius b"
  shows "1 \<le> distance_to b r * impactParameter r + 1
    \<and> distance_to b r * impactParameter r + 1 \<noteq> 0
    \<and> (magnitude a = 0 \<longrightarrow> normalized a = Vector2f 0 0)
    \<and> ((\<exists>r'. update b dt r = Inr r') \<longleftrightarrow> distance_to b r * distance_to b r \<noteq> 0)
    \<and> (0 < getSchwarzschildRadius b \<longrightarrow>
         distance_to b r * distance_to b r \<noteq> 0 \<and> (\<exists>r'. update b dt r = Inr r'))"
proof -
  note impact = reachable_impactParameter [OF reach]
  from deflection_divisor_pos [OF impact, of b]
  have den: "1 \<le> distance_to b r * impactParameter r + 1"
    "distance_to b r * impactParameter r + 1 \<noteq> 0"
    by linarith+
  have ret: "(\<exists>r'. update b dt r = Inr r') \<longleftrightarrow> distance_to b r * distance_to b r \<noteq> 0"
    using update_fails_iff(2) [OF live far impact, of dt] by simp
  have "0 < getSchwarzschildRadius b \<longrightarrow>
         distance_to b r * distance_to b r \<noteq> 0 \<and> (\<exists>r'. update b dt r = Inr r')"
  proof
    assume "0 < getSchwarzschildRadius b"
    with far have "distance_to b r * distance_to b r \<noteq> 0"
      by auto
    with ret show "distance_to b r * distance_to b r \<noteq> 0 \<and> (\<exists>r'. update b dt r = Inr r')"
      by blast
  qed
  with den ret normalized_zero [of a] show ?thesis
    by blast
qed

subsection \<open>C2: the speed after update\<close>

lemma update_velocity:
  assumes "\<not> absorbed r" and "update b dt r = Inr r'" and "\<not> absorbed r'"
  shows "currentVelocity r' = vscale (normalized (integrated_velocity b dt r)) 200"
  using assms
  unfolding update_def integrated_velocity_def fdiv_def Let_def
  by (auto split: if_splits)

lemma magnitude_renormalized:
  "magnitude (vscale (normalized a) 200) = (if a = Vector2f 0 0 then 0 else 200)"
proof (cases "a = Vector2f 0 0")
  case True
  then show ?thesis
    by (simp add: normalized_def magnitude_def vscale_def)
next
  case False
  then show ?thesis
    by (simp add: magnitude_vscale magnitude_normalized)
qed

lemma guard_fails_iff: "\<not> 0 < magnitude a \<longleftrightarrow> a = Vector2f 0 0"
  using magnitude_nonneg [of a] magnitude_eq_0_iff [of a] by linarith

text \<open>
  Claim C2, amended. Take a ray as the constructor and any run of \<open>update\<close> calls leave
  it, not absorbed before the call nor by it, and let the divisor \<open>distance * distance\<close>
  of \<open>update\<close> not be 0 (it never is when the capture radius is positive). Then
  \<open>update\<close> returns the ray, not absorbed, with the velocity integrated over the time
  step, normalised and scaled by 200. Its magnitude is 200, whatever the speed was
  before, when the magnitude of the integrated velocity passes the guard \<open>mag > 0\<close>
  of \<open>normalized\<close>; when it does not, \<open>normalized\<close> returns the zero vector and
  the speed is 0. Nothing is said of a call that divides by zero.
\<close>

theorem speed_after_update:
  assumes reach: "updates calls (LightRay_ctor p v c) = Inr r"
    and live: "\<not> absorbed r"
    and far: "\<not> distance_to b r < getSchwarzschildRadius b"
    and apart: "distance_to b r * distance_to b r \<noteq> 0"
  shows "\<exists>r'. update b dt r = Inr r' \<and> \<not> absorbed r'
    \<and> currentVelocity r' = vscale (normalized (integrated_velocity b dt r)) 200
    \<and> magnitude (currentVelocity r')
        = (if 0 < magnitude (integrated_velocity b dt r) then 200 else 0)"
proof -
  note impact = reachable_impactParameter [OF reach]
  from update_fails_iff(2) [OF live far impact, of dt] apart obtain r' where
    r': "update b dt r = Inr r'"
    by auto
  from update_no_capture [OF live far r'] have alive: "\<not> absorbed r'" .
  from update_velocity [OF live r' alive]
  have vel: "currentVelocity r' = vscale (normalized (integrated_velocity b dt r)) 200" .
  from magnitude_renormalized [of "integrated_velocity b dt r"]
    guard_fails_iff [of "integrated_velocity b dt r"]
  have "magnitude (vscale (normalized (integrated_velocity b dt r)) 200)
        = (if 0 < magnitude (integrated_velocity b dt r) then 200 else 0)"
    by (cases "integrated_velocity b dt r = Vector2f 0 0") simp_all
  with r' alive vel show ?thesis
    by simp
qed

text \<open>
  A ray constructed with velocity zero and updated with time step 0 against the gravity
  source of the simulation is returned as it is: not absorbed, with speed 0.
\<close>

theorem zero_velocity_counterexample:
  "\<not> absorbed (LightRay_ctor (Vector2f (- 50) 400) (Vector2f 0 0) Red)
   \<and> update (BlackHole_ctor (Vector2f 600 400) 50) 0
        (LightRay_ctor (Vector2f (- 50) 400) (Vector2f 0 0) Red)
      = Inr (LightRay_ctor (Vector2f (- 50) 400) (Vector2f 0 0) Red)
   \<and> magnitude (currentVelocity (LightRay_ctor (Vector2f (- 50) 400) (Vector2f 0 0) Red)) \<noteq> 200"
  by (simp add: update_def Let_def fdiv_def LightRay_ctor_def BlackHole_ctor_def
      getPosition_def getMass_def getSchwarzschildRadius_def vsub_def vadd_def vscale_def
      normalized_def magnitude_x_axis WINDOW_HEIGHT_def)

subsection \<open>The infall scenario\<close>

lemma normalized_x_axis_pos: "0 < w \<Longrightarrow> normalized (Vector2f w 0) = Vector2f 1 0"
  by (simp add: normalized_def magnitude_x_axis)

lemma infall_blackHole_fields:
  "getPosition infall_blackHole = Vector2f 600 400"
  "getMass infall_blackHole = 50"
  "getSchwarzschildRadius infall_blackHole = 1 / 2"
  by (simp_all add: infall_blackHole_def BlackHole_ctor_def getPosition_def getMass_def
      getSchwarzschildRadius_def)

lemma infall_is_simulated:
  "infall_blackHole = blackHole BlackHoleSimulation_ctor" and "infall_ray = spawned_ray 7"
  by (simp_all add: infall_blackHole_def BlackHoleSimulation_ctor_def WINDOW_WIDTH_def
      WINDOW_HEIGHT_def infall_ray_def spawned_ray_def colors_def)

lemma axis_distance:
  "currentPosition r = Vector2f x 400 \<Longrightarrow> distance_to infall_blackHole r = \<bar>600 - x\<bar>"
  by (simp add: distance_to_def infall_blackHole_fields vsub_def magnitude_x_axis)

lemma axis_step:
  assumes pos: "currentPosition r = Vector2f x 400"
    and vel: "currentVelocity r = Vector2f 200 0"
    and impact: "impactParameter r = 0"
    and live: "\<not> absorbed r"
    and left: "x \<le> 1199 / 2"
    and dt: "0 \<le> dt"
  shows "update infall_blackHole dt r =
     Inr (r\<lparr>currentVelocity := Vector2f 200 0,
            currentPosition := Vector2f (x + 200 * dt) 400,
            path := (if length (path r) = 0
                       \<or> magnitude (vsub (Vector2f (x + 200 * dt) 400) (last (path r))) > 2
                     then path r @ [Vector2f (x + 200 * dt) 400] else path r)\<rparr>)"
proof -
  define d where "d = 600 - x"
  define g where "g = 500000 / (d * d)"
  from left have d: "1 / 2 \<le> d"
    by (simp add: d_def)
  then have dpos: "0 < d"
    by linarith
  then have gpos: "0 < g"
    by (simp add: g_def)
  have to: "vsub (getPosition infall_blackHole) (currentPosition r) = Vector2f d 0"
    by (simp add: infall_blackHole_fields pos vsub_def d_def)
  have mag: "magnitude (Vector2f d 0) = d"
    using dpos by (simp add: magnitude_x_axis)
  have dir: "normalized (Vector2f d 0) = Vector2f 1 0"
    using dpos by (rule normalized_x_axis_pos)
  have div1: "fdiv 500000 (d * d) = Inr g"
    using dpos by (simp add: fdiv_def g_def)
  have div2: "fdiv 500 1 = Inr 500"
    by (simp add: fdiv_def)
  from gpos dt have "0 \<le> g * 501 * dt"
    by simp
  then have "0 < 200 + g * 501 * dt"
    by linarith
  then have renorm:
    "normalized (vadd (currentVelocity r) (vscale (vscale (vscale (Vector2f 1 0) g) 501) dt))
     = Vector2f 1 0"
    by (simp add: vel vadd_def vscale_def normalized_x_axis_pos)
  have move: "vadd (currentPosition r) (vscale (Vector2f 200 0) dt) = Vector2f (x + 200 * dt) 400"
    by (simp add: pos vadd_def vscale_def)
  have far: "\<not> d * 2 < 1"
    using d by simp
  have v200: "vscale (Vector2f 1 0) 200 = Vector2f 200 0"
    by (simp add: vscale_def)
  show ?thesis
    unfolding update_def Let_def to mag
    using live far by (simp add: infall_blackHole_fields impact div1 div2 dir renorm move v200)
qed

lemma updates_single: "updates [(b, dt)] r = update b dt r"
  by (cases "update b dt r") simp_all

lemma infall_Suc:
  "infall (Suc k) =
     (case infall k of Inl e \<Rightarrow> Inl e | Inr r \<Rightarrow> update infall_blackHole (1 / 60) r)"
proof -
  have "replicate (Suc k) (infall_blackHole, 1 / 60 :: real)
        = replicate k (infall_blackHole, 1 / 60) @ [(infall_blackHole, 1 / 60)]"
    by (simp add: replicate_append_same)
  then show ?thesis
    unfolding infall_def by (simp only: updates_append updates_single)
qed

lemma infall_ray_fields:
  "currentPosition infall_ray = Vector2f (- 50) 400"
  "currentVelocity infall_ray = Vector2f 200 0"
  "impactParameter infall_ray = 0"
  "\<not> absorbed infall_ray"
  "path infall_ray = [Vector2f (- 50) 400]"
  by (simp_all add: infall_ray_def LightRay_ctor_def WINDOW_HEIGHT_def)

lemma infall_on_axis:
  "k \<le> 195 \<Longrightarrow>
   \<exists>r. infall k = Inr r \<and> currentPosition r = Vector2f (- 50 + 10 * real k / 3) 400
     \<and> currentVelocity r = Vector2f 200 0 \<and> impactParameter r = 0 \<and> \<not> absorbed r"
proof (induction k)
  case 0
  then show ?case
    by (simp add: infall_def infall_ray_fields)
next
  case (Suc k)
  then obtain r where r: "infall k = Inr r"
    "currentPosition r = Vector2f (- 50 + 10 * real k / 3) 400"
    "currentVelocity r = Vector2f 200 0" "impactParameter r = 0" "\<not> absorbed r"
    by auto
  from Suc.prems have "real k \<le> 194"
    by simp
  then have left: "- 50 + 10 * real k / 3 \<le> 1199 / 2"
    by simp
  have next_x: "- 50 + 10 * real k / 3 + 200 * (1 / 60) = - 50 + 10 * real (Suc k) / 3"
    by (simp add: field_simps)
  have dt: "(0::real) \<le> 1 / 60"
    by simp
  define r' where "r' = r\<lparr>currentVelocity := Vector2f 200 0,
      currentPosition := Vector2f (- 50 + 10 * real (Suc k) / 3) 400,
      path := (if length (path r) = 0
                 \<or> magnitude (vsub (Vector2f (- 50 + 10 * real (Suc k) / 3) 400) (last (path r))) > 2
               then path r @ [Vector2f (- 50 + 10 * real (Suc k) / 3) 400] else path r)\<rparr>"
  from axis_step [OF r(2) r(3) r(4) r(5) left dt]
  have "update infall_blackHole (1 / 60) r = Inr r'"
    unfolding next_x r'_def .
  with r(1) have "infall (Suc k) = Inr r'"
    by (simp only: infall_Suc sum.case)
  moreover from r(4) r(5) have "currentPosition r' = Vector2f (- 50 + 10 * real (Suc k) / 3) 400"
    "currentVelocity r' = Vector2f 200 0" "impactParameter r' = 0" "\<not> absorbed r'"
    by (simp_all add: r'_def)
  ultimately show ?case
    by blast
qed

lemma infall_distance:
  assumes "k \<le> 195" and "infall k = Inr r"
  shows "distance_to infall_blackHole r = 650 - 10 * real k / 3" and "\<not> absorbed r"
proof -
  from infall_on_axis [OF assms(1)] assms(2)
  have pos: "currentPosition r = Vector2f (- 50 + 10 * real k / 3) 400" and live: "\<not> absorbed r"
    by auto
  from assms(1) have "real k \<le> 195"
    by simp
  then have "0 \<le> 600 - (- 50 + 10 * real k / 3)"
    by simp
  with axis_distance [OF pos] show "distance_to infall_blackHole r = 650 - 10 * real k / 3"
    by simp
  from live show "\<not> absorbed r" .
qed

lemma infall_approaches:
  assumes "k < 195"
  shows "\<exists>r r'. infall k = Inr r \<and> infall (Suc k) = Inr r' \<and> \<not> absorbed r \<and> \<not> absorbed r'
    \<and> distance_to infall_blackHole r' < distance_to infall_blackHole r"
proof -
  from assms have k: "k \<le> 195" and k1: "Suc k \<le> 195"
    by simp_all
  from infall_on_axis [OF k] obtain r where r: "infall k = Inr r"
    by blast
  from infall_on_axis [OF k1] obtain r' where r': "infall (Suc k) = Inr r'"
    by blast
  from infall_distance [OF k r] infall_distance [OF k1 r'] r r' show ?thesis
    by simp
qed

lemma infall_arrives:
  "\<exists>r. infall 195 = Inr r \<and> \<not> absorbed r
     \<and> distance_to infall_blackHole r < getSchwarzschildRadius infall_blackHole
     \<and> infall 196 = Inr (r\<lparr>absorbed := True\<rparr>)"
proof -
  from infall_on_axis [of 195] obtain r where r: "infall 195 = Inr r"
    by auto
  from infall_distance [OF _ r] have d: "distance_to infall_blackHole r = 0" and live: "\<not> absorbed r"
    by simp_all
  from d have near: "distance_to infall_blackHole r < getSchwarzschildRadius infall_blackHole"
    by (simp add: infall_blackHole_fields)
  have "infall (Suc 195) = update infall_blackHole (1 / 60) r"
    by (simp only: infall_Suc r sum.case)
  with update_capture [OF live near] have "infall 196 = Inr (r\<lparr>absorbed := True\<rparr>)"
    by simp
  with r live near show ?thesis
    by blast
qed

lemma infall_stays:
  assumes "196 \<le> k"
  shows "infall k = infall 196" and "\<exists>r. infall k = Inr r \<and> absorbed r"
proof -
  from infall_arrives obtain r where r: "infall 196 = Inr (r\<lparr>absorbed := True\<rparr>)"
    by blast
  from assms have "replicate k (infall_blackHole, 1 / 60 :: real)
      = replicate 196 (infall_blackHole, 1 / 60) @ replicate (k - 196) (infall_blackHole, 1 / 60)"
    by (simp add: replicate_add [symmetric])
  then have "infall k = (case infall 196 of Inl e \<Rightarrow> Inl e
      | Inr r' \<Rightarrow> updates (replicate (k - 196) (infall_blackHole, 1 / 60)) r')"
    unfolding infall_def by (simp only: updates_append)
  with r have k: "infall k = Inr (r\<lparr>absorbed := True\<rparr>)"
    by (simp add: updates_when_absorbed)
  with r show "infall k = infall 196"
    by simp
  from k show "\<exists>r. infall k = Inr r \<and> absorbed r"
    by simp
qed

subsection \<open>C7: direct infall\<close>

text \<open>
  Claim C7. The gravity source at (600, 400) with mass 50 has capture radius 1/2, and the
  ray started at (-50, 400) with velocity (200, 0) has impact parameter 0. Under calls of
  \<open>update\<close> with time step 1/60 the ray is not absorbed after each of the first 195
  calls and every one of them makes its distance to (600, 400) strictly smaller; the
  195th leaves it within the capture radius, the 196th call sets \<open>absorbed\<close> and
  changes nothing else, and every later call returns that same absorbed ray.
\<close>

theorem direct_infall:
  "getSchwarzschildRadius infall_blackHole = 1 / 2
   \<and> impactParameter infall_ray = 0
   \<and> (\<forall>k<195. \<exists>r r'. infall k = Inr r \<and> infall (Suc k) = Inr r'
         \<and> \<not> absorbed r \<and> \<not> absorbed r'
         \<and> distance_to infall_blackHole r' < distance_to infall_blackHole r)
   \<and> (\<exists>r. infall 195 = Inr r \<and> \<not> absorbed r
         \<and> distance_to infall_blackHole r < getSchwarzschildRadius infall_blackHole
         \<and> infall 196 = Inr (r\<lparr>absorbed := True\<rparr>))
   \<and> (\<forall>k\<ge>196. infall k = infall 196 \<and> (\<exists>r. infall k = Inr r \<and> absorbed r))"
proof (intro conjI allI impI)
  show "getSchwarzschildRadius infall_blackHole = 1 / 2"
    by (simp add: infall_blackHole_fields)
  show "impactParameter infall_ray = 0"
    by (simp add: infall_ray_fields)
  show "\<exists>r. infall 195 = Inr r \<and> \<not> absorbed r
         \<and> distance_to infall_blackHole r < getSchwarzschildRadius infall_blackHole
         \<and> infall 196 = Inr (r\<lparr>absorbed := True\<rparr>)"
    by (rule infall_arrives)
next
  fix k :: nat
  assume "k < 195"
  then show "\<exists>r r'. infall k = Inr r \<and> infall (Suc k) = Inr r'
         \<and> \<not> absorbed r \<and> \<not> absorbed r'
         \<and> distance_to infall_blackHole r' < distance_to infall_blackHole r"
    by (rule infall_approaches)
next
  fix k :: nat
  assume "196 \<le> k"
  then show "infall k = infall 196" and "\<exists>r. infall k = Inr r \<and> absorbed r"
    by (rule infall_stays)+
qed

text \<open>The first and the last approaching step, and the ray after 1000 calls.\<close>

theorem direct_infall_witness:
  "(\<exists>r r'. infall 0 = Inr r \<and> infall (Suc 0) = Inr r' \<and> \<not> absorbed r \<and> \<not> absorbed r'
       \<and> distance_to infall_blackHole r' < distance_to infall_blackHole r)
   \<and> (\<exists>r r'. infall 194 = Inr r \<and> infall (Suc 194) = Inr r' \<and> \<not> absorbed r \<and> \<not> absorbed r'
       \<and> distance_to infall_blackHole r' < distance_to infall_blackHole r)
   \<and> infall 1000 = infall 196
   \<and> (\<exists>r. infall 1000 = Inr r \<and> absorbed r)"
proof -
  from direct_infall have
    approach: "\<forall>k<195. \<exists>r r'. infall k = Inr r \<and> infall (Suc k) = Inr r'
         \<and> \<not> absorbed r \<and> \<not> absorbed r'
         \<and> distance_to infall_blackHole r' < distance_to infall_blackHole r"
    and stay: "\<forall>k\<ge>196. infall k = infall 196 \<and> (\<exists>r. infall k = Inr r \<and> absorbed r)"
    by blast+
  from approach have "\<exists>r r'. infall 0 = Inr r \<and> infall (Suc 0) = Inr r'
       \<and> \<not> absorbed r \<and> \<not> absorbed r'
       \<and> distance_to infall_blackHole r' < distance_to infall_blackHole r"
    by (rule allE [of _ 0]) simp
  moreover from approach have "\<exists>r r'. infall 194 = Inr r \<and> infall (Suc 194) = Inr r'
       \<and> \<not> absorbed r \<and> \<not> absorbed r'
       \<and> distance_to infall_blackHole r' < distance_to infall_blackHole r"
    by (rule allE [of _ 194]) simp
  moreover have "(196::nat) \<le> 1000"
    by simp
  with stay have "infall 1000 = infall 196 \<and> (\<exists>r. infall 1000 = Inr r \<and> absorbed r)"
    by blast
  ultimately show ?thesis
    by blast
qed

subsection \<open>Witnesses on the infall scenario\<close>

text \<open>
  The infalling ray after 100 updates keeps its speed of 200 in the next; the ray
  constructed at rest and updated with time step 0 stays at rest.
\<close>

theorem speed_after_update_witness:
  "(\<exists>r r'. updates (replicate 100 (infall_blackHole, 1 / 60))
              (LightRay_ctor (Vector2f (- 50) 400) (Vector2f 200 0) Red) = Inr r
      \<and> \<not> absorbed r
      \<and> \<not> distance_to infall_blackHole r < getSchwarzschildRadius infall_blackHole
      \<and> distance_to infall_blackHole r * distance_to infall_blackHole r \<noteq> 0
      \<and> update infall_blackHole (1 / 60) r = Inr r' \<and> \<not> absorbed r'
      \<and> 0 < magnitude (integrated_velocity infall_blackHole (1 / 60) r)
      \<and> magnitude (currentVelocity r') = 200)
   \<and> (\<exists>r'. update infall_blackHole 0
              (LightRay_ctor (Vector2f (- 50) 400) (Vector2f 0 0) Red) = Inr r'
      \<and> \<not> 0 < magnitude (integrated_velocity infall_blackHole 0
                  (LightRay_ctor (Vector2f (- 50) 400) (Vector2f 0 0) Red))
      \<and> magnitude (currentVelocity r') = 0)"
proof -
  let ?b = infall_blackHole
  from infall_on_axis [of 100] obtain r where
    r: "infall 100 = Inr r" "\<not> absorbed r"
    by auto
  from r(1) have reach: "updates (replicate 100 (?b, 1 / 60))
      (LightRay_ctor (Vector2f (- 50) 400) (Vector2f 200 0) Red) = Inr r"
    by (simp only: infall_def infall_ray_def)
  from infall_distance(1) [OF _ r(1)] have d: "distance_to ?b r = 950 / 3"
    by simp
  then have far: "\<not> distance_to ?b r < getSchwarzschildRadius ?b"
    and apart: "distance_to ?b r * distance_to ?b r \<noteq> 0"
    by (simp_all add: infall_blackHole_fields)
  from speed_after_update [OF reach r(2) far apart, of "1 / 60"] obtain r' where
    r': "update ?b (1 / 60) r = Inr r'" "\<not> absorbed r'"
    "magnitude (currentVelocity r')
       = (if 0 < magnitude (integrated_velocity ?b (1 / 60) r) then 200 else 0)"
    by blast
  from infall_on_axis [of "Suc 100"] obtain r1 where
    r1: "infall (Suc 100) = Inr r1" "currentVelocity r1 = Vector2f 200 0"
    by auto
  have "infall (Suc 100) = update ?b (1 / 60) r"
    by (simp only: infall_Suc r(1) sum.case)
  with r1(1) r'(1) have "r1 = r'"
    by (simp only: sum.inject)
  with r1(2) have speed: "magnitude (currentVelocity r') = 200"
    by (simp add: magnitude_x_axis)
  with r'(3) have guard: "0 < magnitude (integrated_velocity ?b (1 / 60) r)"
    by (auto split: if_splits)
  from reach r(2) far apart r'(1,2) guard speed
  have moving: "\<exists>r r'. updates (replicate 100 (?b, 1 / 60))
              (LightRay_ctor (Vector2f (- 50) 400) (Vector2f 200 0) Red) = Inr r
      \<and> \<not> absorbed r \<and> \<not> distance_to ?b r < getSchwarzschildRadius ?b
      \<and> distance_to ?b r * distance_to ?b r \<noteq> 0
      \<and> update ?b (1 / 60) r = Inr r' \<and> \<not> absorbed r'
      \<and> 0 < magnitude (integrated_velocity ?b (1 / 60) r)
      \<and> magnitude (currentVelocity r') = 200"
    by blast
  let ?z = "LightRay_ctor (Vector2f (- 50) 400) (Vector2f 0 0) Red"
  have zreach: "updates [] ?z = Inr ?z"
    by simp
  have zlive: "\<not> absorbed ?z"
    by (simp add: LightRay_ctor_def)
  have zd: "distance_to ?b ?z = 650"
    by (simp add: axis_distance LightRay_ctor_def)
  then have zfar: "\<not> distance_to ?b ?z < getSchwarzschildRadius ?b"
    and zapart: "distance_to ?b ?z * distance_to ?b ?z \<noteq> 0"
    by (simp_all add: infall_blackHole_fields)
  have rest: "integrated_velocity ?b 0 ?z = Vector2f 0 0"
    by (simp add: integrated_velocity_def Let_def LightRay_ctor_def vadd_def vscale_def)
  then have zguard: "\<not> 0 < magnitude (integrated_velocity ?b 0 ?z)"
    by (simp add: magnitude_x_axis)
  from speed_after_update [OF zreach zlive zfar zapart, of 0] zguard obtain z' where
    "update ?b 0 ?z = Inr z'" "magnitude (currentVelocity z') = 0"
    by auto
  with zguard have "\<exists>r'. update ?b 0 ?z = Inr r'
      \<and> \<not> 0 < magnitude (integrated_velocity ?b 0 ?z) \<and> magnitude (currentVelocity r') = 0"
    by blast
  with moving show ?thesis
    by blast
qed

text \<open>
  The infalling ray after 100 updates: impact parameter 0, and no divisor of the next
  update is zero.
\<close>

theorem update_divisions_witness:
  "\<exists>r. updates (replicate 100 (infall_blackHole, 1 / 60))
          (LightRay_ctor (Vector2f (- 50) 400) (Vector2f 200 0) Red) = Inr r
     \<and> \<not> absorbed r
     \<and> \<not> distance_to infall_blackHole r < getSchwarzschildRadius infall_blackHole
     \<and> impactParameter r = 0
     \<and> distance_to infall_blackHole r * impactParameter r + 1 \<noteq> 0
     \<and> 0 < getSchwarzschildRadius infall_blackHole
     \<and> distance_to infall_blackHole r * distance_to infall_blackHole r \<noteq> 0
     \<and> (\<exists>r'. update infall_blackHole (1 / 60) r = Inr r')"
proof -
  from infall_on_axis [of 100] obtain r where
    r: "infall 100 = Inr r" "impactParameter r = 0" "\<not> absorbed r"
    by auto
  from r(1) have reach: "updates (replicate 100 (infall_blackHole, 1 / 60))
          (LightRay_ctor (Vector2f (- 50) 400) (Vector2f 200 0) Red) = Inr r"
    by (simp only: infall_def infall_ray_def)
  from infall_distance(1) [OF _ r(1)] have "distance_to infall_blackHole r = 950 / 3"
    by simp
  then have far: "\<not> distance_to infall_blackHole r < getSchwarzschildRadius infall_blackHole"
    by (simp add: infall_blackHole_fields)
  have radius: "0 < getSchwarzschildRadius infall_blackHole"
    by (simp add: infall_blackHole_fields)
  from update_divisions [OF reach r(3) far, of "Vector2f 0 0" "1 / 60"] radius
  have "distance_to infall_blackHole r * impactParameter r + 1 \<noteq> 0"
    "distance_to infall_blackHole r * distance_to infall_blackHole r \<noteq> 0"
    "\<exists>r'. update infall_blackHole (1 / 60) r = Inr r'"
    by blast+
  with reach r far radius show ?thesis
    by blast
qed

subsection \<open>C10: the recorded path\<close>

lemma path_spaced_snoc:
  "path_spaced ps \<Longrightarrow> ps = [] \<or> magnitude (vsub q (last ps)) > 2 \<Longrightarrow> path_spaced (ps @ [q])"
  by (induction ps rule: path_spaced.induct) simp_all

lemma update_path:
  assumes "update b dt r = Inr r'"
  shows "path r' = path r
    \<or> (\<exists>q. path r' = path r @ [q] \<and> (path r = [] \<or> magnitude (vsub q (last (path r))) > 2))"
  using assms unfolding update_def Let_def
  by (auto split: if_splits sum.splits)

lemma update_path_invariant:
  assumes "update b dt r = Inr r'" and "path r \<noteq> []" and "path_spaced (path r)"
  shows "path r' \<noteq> [] \<and> path_spaced (path r') \<and> prefix (path r) (path r')
    \<and> hd (path r') = hd (path r)"
  using update_path [OF assms(1)] assms(2,3)
  by (auto simp: path_spaced_snoc)

lemma updates_path_invariant:
  "updates calls r = Inr r' \<Longrightarrow> path r \<noteq> [] \<Longrightarrow> path_spaced (path r) \<Longrightarrow>
   path r' \<noteq> [] \<and> path_spaced (path r') \<and> prefix (path r) (path r') \<and> hd (path r') = hd (path r)"
proof (induction calls arbitrary: r)
  case Nil
  then show ?case by simp
next
  case (Cons call calls)
  obtain b dt where call: "call = (b, dt)"
    by (cases call)
  with Cons.prems(1) obtain r1 where
    1: "update b dt r = Inr r1" and 2: "updates calls r1 = Inr r'"
    by (auto split: sum.splits)
  from update_path_invariant [OF 1 Cons.prems(2,3)]
  have r1: "path r1 \<noteq> []" "path_spaced (path r1)" "prefix (path r) (path r1)"
    "hd (path r1) = hd (path r)"
    by simp_all
  from Cons.IH [OF 2 r1(1,2)] r1(3,4) show ?case
    by (auto intro: prefix_order.trans)
qed

text \<open>
  Claim C10. After any run of \<open>update\<close> calls on a constructed ray the recorded path
  is not empty, starts with the start position, and any two neighbours in it are more
  than 2 apart; and the path after any further run of calls extends it, so recorded points
  are neither changed nor removed.
\<close>

theorem path_invariant:
  assumes "updates calls (LightRay_ctor p v c) = Inr r" and "updates later r = Inr r'"
  shows "path r \<noteq> [] \<and> hd (path r) = p \<and> path_spaced (path r) \<and> prefix (path r) (path r')
    \<and> path (LightRay_ctor p v c) = [p]"
proof -
  have start: "path (LightRay_ctor p v c) = [p]"
    by (simp add: LightRay_ctor_def)
  with updates_path_invariant [OF assms(1)]
  have r: "path r \<noteq> []" "path_spaced (path r)" "hd (path r) = p"
    by simp_all
  from updates_path_invariant [OF assms(2) r(1,2)] r start show ?thesis
    by simp
qed

lemma magnitude_step: "magnitude (vsub (Vector2f a 400) (Vector2f b 400)) = \<bar>a - b\<bar>"
  by (simp add: vsub_def magnitude_x_axis)

text \<open>
  The infalling ray: the first update records a point, a step of one pixel records none,
  and the step after it records the next.
\<close>

theorem path_invariant_witness:
  "\<exists>r r'. updates [(infall_blackHole, 1 / 60)]
             (LightRay_ctor (Vector2f (- 50) 400) (Vector2f 200 0) Red) = Inr r
     \<and> updates [(infall_blackHole, 1 / 200), (infall_blackHole, 1 / 60)] r = Inr r'
     \<and> path r = [Vector2f (- 50) 400, Vector2f (- 140 / 3) 400]
     \<and> path r' = [Vector2f (- 50) 400, Vector2f (- 140 / 3) 400, Vector2f (- 127 / 3) 400]
     \<and> hd (path r) = Vector2f (- 50) 400
     \<and> path_spaced (path r) \<and> path_spaced (path r') \<and> prefix (path r) (path r')"
proof -
  let ?b = infall_blackHole
  let ?r0 = "LightRay_ctor (Vector2f (- 50) 400) (Vector2f 200 0) Red"
  define r1 where "r1 = ?r0\<lparr>currentVelocity := Vector2f 200 0,
    currentPosition := Vector2f (- 140 / 3) 400,
    path := [Vector2f (- 50) 400, Vector2f (- 140 / 3) 400]\<rparr>"
  define r2 where "r2 = r1\<lparr>currentVelocity := Vector2f 200 0,
    currentPosition := Vector2f (- 137 / 3) 400\<rparr>"
  define r3 where "r3 = r2\<lparr>currentVelocity := Vector2f 200 0,
    currentPosition := Vector2f (- 127 / 3) 400,
    path := [Vector2f (- 50) 400, Vector2f (- 140 / 3) 400, Vector2f (- 127 / 3) 400]\<rparr>"
  have f0: "currentPosition ?r0 = Vector2f (- 50) 400" "currentVelocity ?r0 = Vector2f 200 0"
    "impactParameter ?r0 = 0" "\<not> absorbed ?r0"
    by (simp_all add: LightRay_ctor_def WINDOW_HEIGHT_def)
  have f1: "currentPosition r1 = Vector2f (- 140 / 3) 400" "currentVelocity r1 = Vector2f 200 0"
    "impactParameter r1 = 0" "\<not> absorbed r1"
    by (simp_all add: r1_def LightRay_ctor_def WINDOW_HEIGHT_def)
  have f2: "currentPosition r2 = Vector2f (- 137 / 3) 400" "currentVelocity r2 = Vector2f 200 0"
    "impactParameter r2 = 0" "\<not> absorbed r2"
    by (simp_all add: r2_def r1_def LightRay_ctor_def WINDOW_HEIGHT_def)
  have u1: "update ?b (1 / 60) ?r0 = Inr r1"
    using axis_step [OF f0, of "1 / 60"]
    by (simp add: r1_def LightRay_ctor_def magnitude_step)
  have u2: "update ?b (1 / 200) r1 = Inr r2"
    using axis_step [OF f1, of "1 / 200"]
    by (simp add: r2_def r1_def LightRay_ctor_def magnitude_step)
  have u3: "update ?b (1 / 60) r2 = Inr r3"
    using axis_step [OF f2, of "1 / 60"]
    by (simp add: r3_def r2_def r1_def LightRay_ctor_def magnitude_step)
  from u1 have run1: "updates [(?b, 1 / 60)] ?r0 = Inr r1"
    by simp
  from u2 u3 have run2: "updates [(?b, 1 / 200), (?b, 1 / 60)] r1 = Inr r3"
    by simp
  have paths: "path r1 = [Vector2f (- 50) 400, Vector2f (- 140 / 3) 400]"
    "path r3 = [Vector2f (- 50) 400, Vector2f (- 140 / 3) 400, Vector2f (- 127 / 3) 400]"
    by (simp_all add: r1_def r2_def r3_def)
  from path_invariant [OF run1 run2]
  have 1: "hd (path r1) = Vector2f (- 50) 400" "path_spaced (path r1)" "prefix (path r1) (path r3)"
    by simp_all
  have run13: "updates [(?b, 1 / 60), (?b, 1 / 200), (?b, 1 / 60)] ?r0 = Inr r3"
    using u1 u2 u3 by simp
  have "updates [] r3 = Inr r3"
    by simp
  from path_invariant [OF run13 this] have 2: "path_spaced (path r3)"
    by simp
  from run1 run2 paths 1 2 show ?thesis
    by blast
qed

end
